theory Spec2Isabelle
  imports Complex_Main "HOL-Library.Word"
begin

unbundle bit_operations_syntax

section \<open>The JavaScript values that \<open>config.ts\<close> computes with\<close>

text \<open>
  A JavaScript string is modelled as a \<open>string\<close>; a \<open>char\<close> is read as the code unit
  of the same number (U+0000 to U+00FF).

  A JavaScript Number is an IEEE double. Every number that \<open>isIpInCidr\<close> and
  \<open>ipToNumber\<close> build is \<open>NaN\<close>, an infinity or an integer (the results of
  \<open>parseInt\<close>, of the 32-bit operators, and sums and differences of those), so the
  finite values are carried as the integer they denote. Negative zero is not kept
  apart from zero: \<open>+\<close>, \<open>-\<close>, \<open>ToInt32\<close> and \<open>ToUint32\<close> treat both alike.
\<close>

datatype jsnum = NaN | PosInf | NegInf | Fin int

datatype js_error = TypeError

text \<open>The number of binary digits of a non-negative integer.\<close>

function bit_length :: "int \<Rightarrow> nat" where
  "bit_length n = (if n \<le> 0 then 0 else Suc (bit_length (n div 2)))"
  by pat_completeness auto
termination
  by (relation "measure nat") auto

declare bit_length.simps [simp del]

text \<open>
  The double nearest to an integer: exact below \<open>2 ^ 53\<close>; beyond, the integer is
  rounded to 53 significant bits, ties to even, and overflows to an infinity from
  \<open>2 ^ 1024\<close> on. (For a numeral of more than 20 significant digits the language
  lets \<open>parseInt\<close> approximate; the correctly rounded value is taken here.)
\<close>

definition round_to_double :: "int \<Rightarrow> jsnum" where
  "round_to_double n =
     (let m = \<bar>n\<bar> in
      if m < 2 ^ 53 then Fin n
      else
        let e = bit_length m - 53;
            q = m div 2 ^ e;
            r = m mod 2 ^ e;
            q' = (if 2 ^ e < 2 * r \<or> (2 * r = 2 ^ e \<and> odd q) then q + 1 else q);
            v = q' * 2 ^ e
        in if 2 ^ 1024 \<le> v then (if n < 0 then NegInf else PosInf)
           else Fin (if n < 0 then - v else v))"

text \<open>The operators \<open>+\<close> and \<open>-\<close> on Numbers.\<close>

fun js_add :: "jsnum \<Rightarrow> jsnum \<Rightarrow> jsnum" where
  "js_add NaN _ = NaN"
| "js_add _ NaN = NaN"
| "js_add PosInf NegInf = NaN"
| "js_add NegInf PosInf = NaN"
| "js_add PosInf _ = PosInf"
| "js_add _ PosInf = PosInf"
| "js_add NegInf _ = NegInf"
| "js_add _ NegInf = NegInf"
| "js_add (Fin a) (Fin b) = round_to_double (a + b)"

fun js_neg :: "jsnum \<Rightarrow> jsnum" where
  "js_neg NaN = NaN"
| "js_neg PosInf = NegInf"
| "js_neg NegInf = PosInf"
| "js_neg (Fin a) = Fin (- a)"

definition js_sub :: "jsnum \<Rightarrow> jsnum \<Rightarrow> jsnum" where
  "js_sub a b = js_add a (js_neg b)"

text \<open>
  \<open>ToInt32\<close> and \<open>ToUint32\<close> yield the same 32 bits (\<open>NaN\<close> and the infinities give 0,
  an integer is taken modulo \<open>2 ^ 32\<close>); \<open>sint\<close> reads them as \<open>ToInt32\<close> does and
  \<open>uint\<close> as \<open>ToUint32\<close> does.
\<close>

fun to_bits32 :: "jsnum \<Rightarrow> 32 word" where
  "to_bits32 (Fin n) = word_of_int n"
| "to_bits32 _ = 0"

text \<open>
  \<open>a << b\<close>, \<open>a >>> b\<close> and \<open>a & b\<close>. Both shifts use only the low five bits of the
  shift count; \<open><<\<close> and \<open>&\<close> give a signed 32-bit result, \<open>>>>\<close> an unsigned one.
\<close>

definition js_shl :: "jsnum \<Rightarrow> jsnum \<Rightarrow> jsnum" where
  "js_shl a b = Fin (sint (push_bit (unat (to_bits32 b AND 31)) (to_bits32 a)))"

definition js_ushr :: "jsnum \<Rightarrow> jsnum \<Rightarrow> jsnum" where
  "js_ushr a b = Fin (uint (drop_bit (unat (to_bits32 b AND 31)) (to_bits32 a)))"

definition js_and :: "jsnum \<Rightarrow> jsnum \<Rightarrow> jsnum" where
  "js_and a b = Fin (sint (to_bits32 a AND to_bits32 b))"

text \<open>\<open>a === b\<close> on Numbers: \<open>NaN\<close> equals nothing.\<close>

definition js_strict_eq :: "jsnum \<Rightarrow> jsnum \<Rightarrow> bool" where
  "js_strict_eq a b = (a \<noteq> NaN \<and> b \<noteq> NaN \<and> a = b)"

subsection \<open>\<open>parseInt(s, 10)\<close>\<close>

definition is_white_space :: "char \<Rightarrow> bool" where
  "is_white_space c = (of_char c \<in> {9, 10, 11, 12, 13, 32, 160 :: nat})"

definition is_digit :: "char \<Rightarrow> bool" where
  "is_digit c = (48 \<le> (of_char c :: nat) \<and> (of_char c :: nat) \<le> 57)"

definition digit_value :: "char \<Rightarrow> int" where
  "digit_value c = int (of_char c) - 48"

definition decimal_value :: "string \<Rightarrow> int" where
  "decimal_value ds = foldl (\<lambda>a c. 10 * a + digit_value c) 0 ds"

text \<open>
  Leading white space is skipped, one sign is read, then the longest run of decimal
  digits; what follows the digits is ignored, and no digit at all gives \<open>NaN\<close>.
\<close>

definition parseInt :: "string \<Rightarrow> jsnum" where
  "parseInt s =
     (let s1 = dropWhile is_white_space s;
          neg = (case s1 of c # _ \<Rightarrow> c = CHR ''-'' | [] \<Rightarrow> False);
          s2 = (case s1 of c # cs \<Rightarrow> if c = CHR ''-'' \<or> c = CHR ''+'' then cs else s1
                | [] \<Rightarrow> s1);
          z = takeWhile is_digit s2
      in if z = [] then NaN
         else round_to_double (if neg then - decimal_value z else decimal_value z))"

subsection \<open>\<open>String.prototype.split\<close> with a one-character separator\<close>

text \<open>The result is never empty: a string without the separator gives itself.\<close>

fun split_on :: "char \<Rightarrow> string \<Rightarrow> string list" where
  "split_on sep [] = [[]]"
| "split_on sep (c # cs) =
     (if c = sep then [] # split_on sep cs
      else (case split_on sep cs of
              p # ps \<Rightarrow> (c # p) # ps
            | [] \<Rightarrow> [[c]]))"

text \<open>Reading an array element: \<open>None\<close> is \<open>undefined\<close>.\<close>

definition js_index :: "'a list \<Rightarrow> nat \<Rightarrow> 'a option" where
  "js_index xs i = (if i < length xs then Some (xs ! i) else None)"

text \<open>\<open>ToString\<close> of a value that is a string or \<open>undefined\<close>.\<close>

definition to_string :: "string option \<Rightarrow> string" where
  "to_string v = (case v of None \<Rightarrow> ''undefined'' | Some s \<Rightarrow> s)"

section \<open>Network policy: \<open>isTargetAllowed\<close>, \<open>isIpInCidr\<close>, \<open>ipToNumber\<close>\<close>

text \<open>
  \<^verbatim>\<open>ip.split('.').reduce((acc, octet) => (acc << 8) + parseInt(octet, 10), 0) >>> 0\<close>
\<close>

definition ipToNumber :: "string \<Rightarrow> jsnum" where
  "ipToNumber ip =
     js_ushr
       (foldl (\<lambda>acc octet. js_add (js_shl acc (Fin 8)) (parseInt octet)) (Fin 0)
          (split_on CHR ''.'' ip))
       (Fin 0)"

text \<open>
  \<open>isIpInCidr\<close>. The destructuring \<open>[network, prefixLength] = cidr.split('/')\<close> reads
  elements 0 and 1 of the array; \<open>ipToNumber(network)\<close> calls \<open>network.split\<close>, which
  throws a \<open>TypeError\<close> on \<open>undefined\<close>, while \<open>parseInt\<close> converts an \<open>undefined\<close>
  prefix to the string \<open>undefined\<close>.
\<close>

definition isIpInCidr :: "string \<Rightarrow> string \<Rightarrow> js_error + bool" where
  "isIpInCidr ip cidr =
     (let parts = split_on CHR ''/'' cidr;
          network = js_index parts 0;
          prefixLength = js_index parts 1;
          prefix = parseInt (to_string prefixLength);
          ipNum = ipToNumber ip
      in case network of
           None \<Rightarrow> Inl TypeError
         | Some net \<Rightarrow>
             let networkNum = ipToNumber net;
                 mask = js_ushr (js_shl (Fin 4294967295) (js_sub (Fin 32) prefix)) (Fin 0)
             in Inr (js_strict_eq (js_and ipNum mask) (js_and networkNum mask)))"

text \<open>The loop of \<open>isTargetAllowed\<close>: the first matching range returns \<open>true\<close>.\<close>

fun isTargetAllowed :: "string \<Rightarrow> string list \<Rightarrow> js_error + bool" where
  "isTargetAllowed target [] = Inr False"
| "isTargetAllowed target (cidr # allowedCidrs) =
     (case isIpInCidr target cidr of
        Inl e \<Rightarrow> Inl e
      | Inr True \<Rightarrow> Inr True
      | Inr False \<Rightarrow> isTargetAllowed target allowedCidrs)"

subsection \<open>Well-formed addresses and ranges, and membership as the specification words it\<close>

text \<open>
  A dotted quad is four parts separated by dots, each one to three decimal digits of
  value at most 255. A range is a dotted quad, a slash and a prefix length of one or
  two decimal digits.
\<close>

definition is_octet :: "string \<Rightarrow> bool" where
  "is_octet s = (s \<noteq> [] \<and> length s \<le> 3 \<and> list_all is_digit s \<and> decimal_value s \<le> 255)"

definition is_dotted_quad :: "string \<Rightarrow> bool" where
  "is_dotted_quad s =
     (let parts = split_on CHR ''.'' s in length parts = 4 \<and> list_all is_octet parts)"

definition is_prefix_length :: "string \<Rightarrow> bool" where
  "is_prefix_length s = (s \<noteq> [] \<and> length s \<le> 2 \<and> list_all is_digit s)"

definition cidr_network :: "string \<Rightarrow> string" where
  "cidr_network c = hd (split_on CHR ''/'' c)"

definition cidr_prefix :: "string \<Rightarrow> nat" where
  "cidr_prefix c = nat (decimal_value (split_on CHR ''/'' c ! 1))"

definition is_cidr :: "string \<Rightarrow> bool" where
  "is_cidr c =
     (let parts = split_on CHR ''/'' c
      in length parts = 2 \<and> is_dotted_quad (parts ! 0) \<and> is_prefix_length (parts ! 1))"

text \<open>Big-endian packing of the four octets into 32 bits.\<close>

definition packed_address :: "string \<Rightarrow> 32 word" where
  "packed_address s =
     (case map decimal_value (split_on CHR ''.'' s) of
        [a, b, c, d] \<Rightarrow> word_of_int (a * 2 ^ 24 + b * 2 ^ 16 + c * 2 ^ 8 + d)
      | _ \<Rightarrow> 0)"

text \<open>The mask of \<open>p\<close> leading one-bits: bit \<open>i\<close> is set iff \<open>32 - p \<le> i\<close>.\<close>

definition prefix_mask :: "nat \<Rightarrow> 32 word" where
  "prefix_mask p = NOT (mask (32 - p))"

definition in_range :: "string \<Rightarrow> string \<Rightarrow> bool" where
  "in_range target c =
     (packed_address target AND prefix_mask (cidr_prefix c)
        = packed_address (cidr_network c) AND prefix_mask (cidr_prefix c))"

section \<open>The configuration model: what \<open>z.infer\<close> gives for the schemas\<close>

text \<open>
  \<open>Instance\<close> is the output type of \<open>InstanceSchema\<close>. An instance slot is the union
  of that type and of \<open>{ enabled: false }\<close>, the output type of
  \<open>DisabledInstanceSchema\<close>; the source tells the two apart with
  \<open>'ssh_key' in slot\<close>, which holds exactly for the first.
\<close>

record Instance =
  public_ip :: string
  private_ip :: string
  ssh_key :: string
  ssh_user :: string
  instance_type :: string
  enabled :: bool
  ports :: "(string \<times> real) list option"

datatype slot = Instance Instance | DisabledInstance

record lab_info =
  name :: string
  lab_vpc_cidr :: string
  project :: "string option"
  environment :: "string option"

record instance_slots =
  siem :: slot
  victim :: slot
  kali :: slot

record network_config =
  vpc_cidr :: string
  subnet_cidr :: string
  allowed_ip :: string

record mcp_config =
  server_name :: string
  allowed_targets :: "string list"
  max_session_time :: real
  audit_enabled :: bool
  log_level :: string

record LabConfig =
  version :: string
  generated :: string
  lab :: lab_info
  instances :: instance_slots
  network :: network_config
  mcp :: mcp_config

section \<open>Credential selection: \<open>selectCredentials\<close>\<close>

record credentials =
  sshKey :: string
  username :: string

text \<open>
  The one error of \<open>selectCredentials\<close>,
  \<^verbatim>\<open>new Error('Kali instance not available for SSH operations')\<close>; the
  specification names it CredentialUnavailable.
\<close>

datatype credential_error = KaliNotAvailable

text \<open>
  One condition of the \<open>if\<close> chain:
  \<^verbatim>\<open>'ssh_key' in slot && (slot.public_ip === target || slot.private_ip === target)\<close>.
  When it holds the branch reads the fields of that same instance, so the instance is
  returned with the answer.
\<close>

fun matching_instance :: "slot \<Rightarrow> string \<Rightarrow> Instance option" where
  "matching_instance (Instance i) target =
     (if public_ip i = target \<or> private_ip i = target then Some i else None)"
| "matching_instance DisabledInstance target = None"

text \<open>The parameter \<open>defaultUsername\<close> is \<open>'kali'\<close> when the caller leaves it out.\<close>

definition default_username :: "string option \<Rightarrow> string" where
  "default_username arg = (case arg of None \<Rightarrow> ''kali'' | Some u \<Rightarrow> u)"

definition selectCredentials ::
  "string \<Rightarrow> LabConfig \<Rightarrow> string option \<Rightarrow> credential_error + credentials" where
  "selectCredentials target config defaultUsername =
     (case matching_instance (siem (instances config)) target of
        Some s \<Rightarrow> Inr \<lparr>sshKey = ssh_key s, username = ssh_user s\<rparr>
      | None \<Rightarrow>
     (case matching_instance (victim (instances config)) target of
        Some v \<Rightarrow> Inr \<lparr>sshKey = ssh_key v, username = ssh_user v\<rparr>
      | None \<Rightarrow>
     (case matching_instance (kali (instances config)) target of
        Some k \<Rightarrow> Inr \<lparr>sshKey = ssh_key k, username = ssh_user k\<rparr>
      | None \<Rightarrow>
     (case kali (instances config) of
        DisabledInstance \<Rightarrow> Inl KaliNotAvailable
      | Instance k \<Rightarrow>
          Inr \<lparr>sshKey = ssh_key k, username = default_username defaultUsername\<rparr>))))"

text \<open>A slot with another value of the \<open>enabled\<close> flag.\<close>

fun with_enabled :: "bool \<Rightarrow> slot \<Rightarrow> slot" where
  "with_enabled b (Instance i) = Instance (i\<lparr>enabled := b\<rparr>)"
| "with_enabled b DisabledInstance = DisabledInstance"

text \<open>
  The specification's wording: a slot carries an address if it is an instance whose
  public or private address is that address.
\<close>

definition carries_address :: "slot \<Rightarrow> string \<Rightarrow> bool" where
  "carries_address sl target =
     (case sl of
        Instance i \<Rightarrow> public_ip i = target \<or> private_ip i = target
      | DisabledInstance \<Rightarrow> False)"

text \<open>Sample hosts and a sample configuration around three given slots.\<close>

definition host :: "string \<Rightarrow> string \<Rightarrow> string \<Rightarrow> string \<Rightarrow> bool \<Rightarrow> Instance" where
  "host pub priv key user flag =
     \<lparr>public_ip = pub, private_ip = priv, ssh_key = key, ssh_user = user,
      instance_type = ''t3.micro'', enabled = flag, ports = None\<rparr>"

definition lab_with :: "slot \<Rightarrow> slot \<Rightarrow> slot \<Rightarrow> LabConfig" where
  "lab_with s v k =
     \<lparr>version = ''1.0'', generated = ''2025-01-01T00:00:00Z'',
      lab = \<lparr>name = ''aptl'', lab_vpc_cidr = ''10.0.0.0/16'', project = None,
             environment = None\<rparr>,
      instances = \<lparr>siem = s, victim = v, kali = k\<rparr>,
      network = \<lparr>vpc_cidr = ''10.0.0.0/16'', subnet_cidr = ''10.0.1.0/24'',
                 allowed_ip = ''203.0.113.7/32''\<rparr>,
      mcp = \<lparr>server_name = ''kali-red-team'', allowed_targets = [''10.0.1.0/24''],
             max_session_time = 3600, audit_enabled = True, log_level = ''info''\<rparr>\<rparr>"

section \<open>Root discovery: \<open>findTerraformRoot\<close>\<close>

text \<open>
  An absolute, normalised POSIX path is the list of its components; the empty list is
  the root directory. \<open>resolve(dir, name)\<close> appends a component and \<open>dirname\<close>
  drops the last one (the root is its own parent). The file system is the predicate
  \<open>existsSync\<close>.
\<close>

type_synonym fs_path = "string list"

definition resolve :: "fs_path \<Rightarrow> string \<Rightarrow> fs_path" where
  "resolve dir segment = dir @ [segment]"

definition dirname :: "fs_path \<Rightarrow> fs_path" where
  "dirname p = butlast p"

text \<open>The error thrown when no directory is found.\<close>

datatype discovery_error = TerraformRootNotFound

definition knownLocations :: "fs_path list" where
  "knownLocations =
     [[''home'', ''atomik'', ''src'', ''aptl''],
      [''home'', ''atomik'', ''src'', ''aptl'', ''infrastructure'']]"

text \<open>The first loop, over the known locations.\<close>

fun check_known_locations :: "(fs_path \<Rightarrow> bool) \<Rightarrow> fs_path list \<Rightarrow> fs_path option" where
  "check_known_locations existsSync [] = None"
| "check_known_locations existsSync (location # rest) =
     (if existsSync location \<and>
         (existsSync (resolve location ''main.tf'') \<or>
          existsSync (resolve location ''outputs.tf''))
      then Some location
      else check_known_locations existsSync rest)"

definition maxDepth :: nat where
  "maxDepth = 10"

text \<open>The \<open>while\<close> loop, from the current directory upwards.\<close>

function search_upward ::
  "(fs_path \<Rightarrow> bool) \<Rightarrow> fs_path \<Rightarrow> nat \<Rightarrow> discovery_error + fs_path" where
  "search_upward existsSync currentDir depth =
     (if depth < maxDepth then
        if existsSync (resolve currentDir ''main.tf'') \<or>
           existsSync (resolve currentDir ''outputs.tf'')
        then Inr currentDir
        else if existsSync (resolve (resolve currentDir ''infrastructure'') ''main.tf'') \<or>
                existsSync (resolve (resolve currentDir ''infrastructure'') ''outputs.tf'')
        then Inr (resolve currentDir ''infrastructure'')
        else if dirname currentDir = currentDir then Inl TerraformRootNotFound
        else search_upward existsSync (dirname currentDir) (depth + 1)
      else Inl TerraformRootNotFound)"
  by pat_completeness auto
termination
  by (relation "measure (\<lambda>(existsSync, currentDir, depth). maxDepth - depth)") auto

declare search_upward.simps [simp del]

definition findTerraformRoot ::
  "(fs_path \<Rightarrow> bool) \<Rightarrow> fs_path \<Rightarrow> discovery_error + fs_path" where
  "findTerraformRoot existsSync cwd =
     (case check_known_locations existsSync knownLocations of
        Some location \<Rightarrow> Inr location
      | None \<Rightarrow> search_upward existsSync cwd 0)"

text \<open>
  What the specification calls a qualifying candidate: it exists and holds a marker
  file at its top level or inside its \<open>infrastructure\<close> subdirectory.
\<close>

definition has_marker :: "(fs_path \<Rightarrow> bool) \<Rightarrow> fs_path \<Rightarrow> bool" where
  "has_marker existsSync dir =
     (existsSync (resolve dir ''main.tf'') \<or> existsSync (resolve dir ''outputs.tf''))"

definition qualifies_by_spec :: "(fs_path \<Rightarrow> bool) \<Rightarrow> fs_path \<Rightarrow> bool" where
  "qualifies_by_spec existsSync location =
     (existsSync location \<and>
      (has_marker existsSync location \<or>
       has_marker existsSync (resolve location ''infrastructure'')))"

text \<open>
  The file system that holds the given files and the directories above them, and
  nothing else.
\<close>

definition file_tree :: "fs_path list \<Rightarrow> fs_path \<Rightarrow> bool" where
  "file_tree files p = (\<exists>f\<in>set files. \<exists>n\<in>set [0..<Suc (length f)]. p = take n f)"

section \<open>Validation: the schemas and \<open>LabConfigSchema.parse\<close>\<close>

subsection \<open>The schema library\<close>

text \<open>
  The schemas are built with the zod library (version 3), an external dependency of
  \<open>config.ts\<close>. The combinators below follow its parser for the constructors that
  \<open>config.ts\<close> uses.

  The input is what \<open>JSON.parse\<close> returns. An object is the list of its properties,
  looked up by key; an absent key reads as \<open>undefined\<close>, which is \<open>None\<close>.
\<close>

datatype json =
  JNull
| JBool bool
| JNum real
| JStr string
| JArr "json list"
| JObj "(string \<times> json) list"

datatype path_segment = Key string | Index nat

type_synonym issue_path = "path_segment list"

text \<open>
  An issue has a code and the path of the value it is about; an \<open>invalid_union\<close> issue
  carries the issues of each alternative.
\<close>

datatype issue =
  invalid_type issue_path
| invalid_literal issue_path
| invalid_string issue_path
| invalid_union issue_path "issue list list"

text \<open>
  A parser returns a status (valid, dirty: a value that broke a check, or aborted) and
  the issues it recorded.
\<close>

datatype 'a status = Valid 'a | Dirty 'a | Aborted

type_synonym 'a parsed = "issue list \<times> 'a status"

type_synonym 'a schema = "issue_path \<Rightarrow> json option \<Rightarrow> 'a parsed"

definition OK :: "'a \<Rightarrow> 'a parsed" where
  "OK a = ([], Valid a)"

definition INVALID :: "issue \<Rightarrow> 'a parsed" where
  "INVALID i = ([i], Aborted)"

fun map_value :: "('a \<Rightarrow> 'b) \<Rightarrow> 'a status \<Rightarrow> 'b status" where
  "map_value f (Valid a) = Valid (f a)"
| "map_value f (Dirty a) = Dirty (f a)"
| "map_value f Aborted = Aborted"

definition map_parsed :: "('a \<Rightarrow> 'b) \<Rightarrow> 'a parsed \<Rightarrow> 'b parsed" where
  "map_parsed f r = (fst r, map_value f (snd r))"

text \<open>\<open>z.string()\<close>, \<open>z.number()\<close>, \<open>z.boolean()\<close>: the type of the input decides.\<close>

definition z_string :: "string schema" where
  "z_string p v =
     (case v of Some (JStr s) \<Rightarrow> OK s | _ \<Rightarrow> INVALID (invalid_type p))"

definition z_number :: "real schema" where
  "z_number p v =
     (case v of Some (JNum n) \<Rightarrow> OK n | _ \<Rightarrow> INVALID (invalid_type p))"

definition z_boolean :: "bool schema" where
  "z_boolean p v =
     (case v of Some (JBool b) \<Rightarrow> OK b | _ \<Rightarrow> INVALID (invalid_type p))"

text \<open>
  \<open>z.string().ip()\<close>: a string that fails the check is reported and the result is
  dirty. The check is the parameter \<open>ip\<close>; the check of the library is \<open>isValidIP\<close>
  below, so the schemas of \<open>config.ts\<close> are the ones at \<open>ip = isValidIP\<close>.
\<close>

definition z_string_ip :: "(string \<Rightarrow> bool) \<Rightarrow> string schema" where
  "z_string_ip ip p v =
     (case v of
        Some (JStr s) \<Rightarrow> if ip s then OK s else ([invalid_string p], Dirty s)
      | _ \<Rightarrow> INVALID (invalid_type p))"

text \<open>\<open>z.literal(false)\<close>.\<close>

definition z_literal_false :: "unit schema" where
  "z_literal_false p v =
     (case v of Some (JBool False) \<Rightarrow> OK () | _ \<Rightarrow> INVALID (invalid_literal p))"

text \<open>\<open>inner.optional()\<close>: \<open>undefined\<close> is accepted as it is.\<close>

definition z_optional :: "'a schema \<Rightarrow> 'a option schema" where
  "z_optional inner p v =
     (case v of None \<Rightarrow> OK None | Some _ \<Rightarrow> map_parsed Some (inner p v))"

text \<open>
  \<open>z.boolean().optional().default(d)\<close>: \<open>undefined\<close> is replaced by the default before
  the inner schema runs, so the output is always a boolean.
\<close>

definition z_boolean_optional_default :: "bool \<Rightarrow> bool schema" where
  "z_boolean_optional_default d p v =
     (case v of None \<Rightarrow> OK d | Some _ \<Rightarrow> z_boolean p v)"

text \<open>
  Merging the results of the parts of an object, array or record: all parts are parsed
  and all their issues kept; the whole is aborted if a part is, else dirty if a part
  is.
\<close>

fun merge_status :: "('a \<Rightarrow> 'b) status \<Rightarrow> 'a status \<Rightarrow> 'b status" where
  "merge_status Aborted _ = Aborted"
| "merge_status _ Aborted = Aborted"
| "merge_status (Valid f) (Valid a) = Valid (f a)"
| "merge_status (Valid f) (Dirty a) = Dirty (f a)"
| "merge_status (Dirty f) (Valid a) = Dirty (f a)"
| "merge_status (Dirty f) (Dirty a) = Dirty (f a)"

definition and_field :: "('a \<Rightarrow> 'b) parsed \<Rightarrow> 'a parsed \<Rightarrow> 'b parsed" where
  "and_field r x = (fst r @ fst x, merge_status (snd r) (snd x))"

fun merge_all :: "'a parsed list \<Rightarrow> 'a list parsed" where
  "merge_all [] = OK []"
| "merge_all (r # rs) = and_field (map_parsed (#) r) (merge_all rs)"

text \<open>
  \<open>z.array(z.string())\<close> and \<open>z.record(z.number())\<close>. Every element or member is
  parsed; the merged record leaves out a member named \<open>__proto__\<close>.
\<close>

definition z_array_string :: "string list schema" where
  "z_array_string p v =
     (case v of
        Some (JArr items) \<Rightarrow>
          merge_all (map (\<lambda>(i, item). z_string (p @ [Index i]) (Some item))
                       (enumerate 0 items))
      | _ \<Rightarrow> INVALID (invalid_type p))"

definition z_record_number :: "(string \<times> real) list schema" where
  "z_record_number p v =
     (case v of
        Some (JObj members) \<Rightarrow>
          map_parsed (filter (\<lambda>(k, n). k \<noteq> ''__proto__''))
            (merge_all (map (\<lambda>(k, x). map_parsed (Pair k) (z_number (p @ [Key k]) (Some x)))
                         members))
      | _ \<Rightarrow> INVALID (invalid_type p))"

text \<open>
  \<open>z.object(shape)\<close>: the input must be an object; each key of the shape is read from
  it and parsed at the path extended by the key. Keys that the shape does not name
  are not looked at (the default mode of an object schema strips them).
\<close>

definition z_object ::
  "issue_path \<Rightarrow> json option \<Rightarrow> ((string \<Rightarrow> json option) \<Rightarrow> 'a parsed) \<Rightarrow> 'a parsed" where
  "z_object p v shape =
     (case v of
        Some (JObj members) \<Rightarrow> shape (map_of members)
      | _ \<Rightarrow> INVALID (invalid_type p))"

definition field ::
  "'a schema \<Rightarrow> issue_path \<Rightarrow> (string \<Rightarrow> json option) \<Rightarrow> string \<Rightarrow> 'a parsed" where
  "field inner p get k = inner (p @ [Key k]) (get k)"

text \<open>
  \<open>z.union([a, b])\<close>: the alternatives are tried in order, each with an issue list of
  its own, and the first valid result is returned. With none valid, the first dirty
  result is returned with its issues; otherwise the union is aborted with one
  \<open>invalid_union\<close> issue.
\<close>

definition z_union :: "'a schema \<Rightarrow> 'b schema \<Rightarrow> ('a + 'b) schema" where
  "z_union a b p v =
     (let ra = a p v; rb = b p v in
      case snd ra of
        Valid x \<Rightarrow> OK (Inl x)
      | _ \<Rightarrow>
     (case snd rb of
        Valid y \<Rightarrow> OK (Inr y)
      | _ \<Rightarrow>
     (case snd ra of
        Dirty x \<Rightarrow> (fst ra, Dirty (Inl x))
      | _ \<Rightarrow>
     (case snd rb of
        Dirty y \<Rightarrow> (fst rb, Dirty (Inr y))
      | _ \<Rightarrow>
          INVALID (invalid_union p (filter (\<lambda>issues. issues \<noteq> []) [fst ra, fst rb]))))))"

text \<open>\<open>schema.parse(data)\<close>: the value if the status is valid, else the error thrown.\<close>

definition parse :: "'a schema \<Rightarrow> json \<Rightarrow> issue list + 'a" where
  "parse s data =
     (case s [] (Some data) of
        (issues, Valid a) \<Rightarrow> Inr a
      | (issues, _) \<Rightarrow> Inl issues)"

subsection \<open>The address check of \<open>z.string().ip()\<close>\<close>

text \<open>
  Without a \<open>version\<close> option the check is \<open>ipv4Regex.test(ip) || ipv6Regex.test(ip)\<close>.
  Both expressions are anchored at both ends and use only character classes,
  sequence, alternation and counted repetition, so a regular expression is a term of
  the type \<open>rx\<close>, and \<open>rests r s\<close> lists what can remain of \<open>s\<close> after a match of \<open>r\<close> at
  its start.
\<close>

datatype rx = Eps | Chars string | Seq rx rx | Alt rx rx | Star rx

fun rests :: "rx \<Rightarrow> string \<Rightarrow> string list" where
  "rests Eps s = [s]"
| "rests (Chars cs) [] = []"
| "rests (Chars cs) (c # t) = (if c \<in> set cs then [t] else [])"
| "rests (Seq a b) s = concat (map (rests b) (rests a s))"
| "rests (Alt a b) s = rests a s @ rests b s"
| "rests (Star a) s =
     s # concat (map (rests (Star a)) (filter (\<lambda>t. length t < length s) (rests a s)))"

text \<open>\<open>/^r$/.test(s)\<close>: some match of \<open>r\<close> uses up the whole string.\<close>

definition rx_test :: "rx \<Rightarrow> string \<Rightarrow> bool" where
  "rx_test r s = ([] \<in> set (rests r s))"

text \<open>
  A literal text, the counted repetition \<open>r{m,n}\<close>, a sequence and an alternation of
  several expressions.
\<close>

fun lit :: "string \<Rightarrow> rx" where
  "lit [] = Eps"
| "lit (c # cs) = Seq (Chars [c]) (lit cs)"

fun rep :: "nat \<Rightarrow> nat \<Rightarrow> rx \<Rightarrow> rx" where
  "rep 0 0 r = Eps"
| "rep 0 (Suc n) r = Alt (Seq r (rep 0 n r)) Eps"
| "rep (Suc m) 0 r = Chars []"
| "rep (Suc m) (Suc n) r = Seq r (rep m n r)"

fun seqs :: "rx list \<Rightarrow> rx" where
  "seqs [] = Eps"
| "seqs (r # rs) = Seq r (seqs rs)"

fun alts :: "rx list \<Rightarrow> rx" where
  "alts [] = Chars []"
| "alts (r # rs) = Alt r (alts rs)"

definition rx_digit :: rx where
  "rx_digit = Chars ''0123456789''"

definition rx_hex :: rx where
  "rx_hex = Chars ''0123456789abcdefABCDEF''"

definition rx_alnum :: rx where
  "rx_alnum = Chars ''0123456789abcdefghijklmnopqrstuvwxyzABCDEFGHIJKLMNOPQRSTUVWXYZ''"

text \<open>
  The two expressions, as in the versions 3.23 and later of the library.

  \<^verbatim>\<open>ipv4Regex = /^(?:(?:25[0-5]|2[0-4][0-9]|1[0-9][0-9]|[1-9][0-9]|[0-9])\.){3}\<close>
  \<^verbatim>\<open>(?:25[0-5]|2[0-4][0-9]|1[0-9][0-9]|[1-9][0-9]|[0-9])$/\<close>
\<close>

definition ipv4_octet :: rx where
  "ipv4_octet = alts
     [seqs [lit ''25'', Chars ''012345''],
      seqs [lit ''2'', Chars ''01234'', rx_digit],
      seqs [lit ''1'', rx_digit, rx_digit],
      seqs [Chars ''123456789'', rx_digit],
      rx_digit]"

definition ipv4Regex :: rx where
  "ipv4Regex = seqs [rep 3 3 (seqs [ipv4_octet, lit ''.'']), ipv4_octet]"

text \<open>
  \<open>ipv6Regex\<close>. With \<open>H\<close> for \<^verbatim>\<open>[0-9a-fA-F]{1,4}\<close> and \<open>V4\<close> for
  \<^verbatim>\<open>((25[0-5]|(2[0-4]|1{0,1}[0-9]){0,1}[0-9])\.){3,3}(25[0-5]|(2[0-4]|1{0,1}[0-9]){0,1}[0-9])\<close>,
  its alternatives are, in order:
  \<^verbatim>\<open>(H:){7,7}H\<close>, \<^verbatim>\<open>(H:){1,7}:\<close>, \<^verbatim>\<open>(H:){1,6}:H\<close>,
  \<^verbatim>\<open>(H:){1,5}(:H){1,2}\<close>, \<^verbatim>\<open>(H:){1,4}(:H){1,3}\<close>, \<^verbatim>\<open>(H:){1,3}(:H){1,4}\<close>,
  \<^verbatim>\<open>(H:){1,2}(:H){1,5}\<close>, \<^verbatim>\<open>H:((:H){1,6})\<close>, \<^verbatim>\<open>:((:H){1,7}|:)\<close>,
  \<^verbatim>\<open>fe80:(:[0-9a-fA-F]{0,4}){0,4}%[0-9a-zA-Z]{1,}\<close>,
  \<^verbatim>\<open>::(ffff(:0{1,4}){0,1}:){0,1}V4\<close> and \<^verbatim>\<open>(H:){1,4}:V4\<close>.
\<close>

definition h16 :: rx where
  "h16 = rep 1 4 rx_hex"

definition h16_colon :: rx where
  "h16_colon = seqs [h16, lit '':'']"

definition colon_h16 :: rx where
  "colon_h16 = seqs [lit '':'', h16]"

definition embedded_octet :: rx where
  "embedded_octet = alts
     [seqs [lit ''25'', Chars ''012345''],
      seqs [rep 0 1 (alts [seqs [lit ''2'', Chars ''01234''],
                           seqs [rep 0 1 (lit ''1''), rx_digit]]),
            rx_digit]]"

definition embedded_ipv4 :: rx where
  "embedded_ipv4 = seqs [rep 3 3 (seqs [embedded_octet, lit ''.'']), embedded_octet]"

definition ipv6Regex :: rx where
  "ipv6Regex = alts
     [seqs [rep 7 7 h16_colon, h16],
      seqs [rep 1 7 h16_colon, lit '':''],
      seqs [rep 1 6 h16_colon, lit '':'', h16],
      seqs [rep 1 5 h16_colon, rep 1 2 colon_h16],
      seqs [rep 1 4 h16_colon, rep 1 3 colon_h16],
      seqs [rep 1 3 h16_colon, rep 1 4 colon_h16],
      seqs [rep 1 2 h16_colon, rep 1 5 colon_h16],
      seqs [h16, lit '':'', rep 1 6 colon_h16],
      seqs [lit '':'', alts [rep 1 7 colon_h16, lit '':'']],
      seqs [lit ''fe80:'', rep 0 4 (seqs [lit '':'', rep 0 4 rx_hex]), lit ''%'',
            rx_alnum, Star rx_alnum],
      seqs [lit ''::'',
            rep 0 1 (seqs [lit ''ffff'', rep 0 1 (seqs [lit '':'', rep 1 4 (lit ''0'')]),
                           lit '':'']),
            embedded_ipv4],
      seqs [rep 1 4 h16_colon, lit '':'', embedded_ipv4]]"

definition isValidIP :: "string \<Rightarrow> bool" where
  "isValidIP ip = (rx_test ipv4Regex ip \<or> rx_test ipv6Regex ip)"

subsection \<open>The schemas of \<open>config.ts\<close>\<close>

definition InstanceSchema :: "(string \<Rightarrow> bool) \<Rightarrow> Instance schema" where
  "InstanceSchema ip p v =
     z_object p v (\<lambda>get.
       and_field (and_field (and_field (and_field (and_field (and_field (and_field
         (OK (\<lambda>a b c d e f g.
            \<lparr>public_ip = a, private_ip = b, ssh_key = c, ssh_user = d,
             instance_type = e, enabled = f, ports = g\<rparr>))
         (field (z_string_ip ip) p get ''public_ip''))
         (field (z_string_ip ip) p get ''private_ip''))
         (field z_string p get ''ssh_key''))
         (field z_string p get ''ssh_user''))
         (field z_string p get ''instance_type''))
         (field (z_boolean_optional_default True) p get ''enabled''))
         (field (z_optional z_record_number) p get ''ports''))"

definition DisabledInstanceSchema :: "unit schema" where
  "DisabledInstanceSchema p v =
     z_object p v (\<lambda>get.
       and_field (OK (\<lambda>a. a)) (field z_literal_false p get ''enabled''))"

definition NetworkSchema :: "network_config schema" where
  "NetworkSchema p v =
     z_object p v (\<lambda>get.
       and_field (and_field (and_field
         (OK (\<lambda>a b c. \<lparr>vpc_cidr = a, subnet_cidr = b, allowed_ip = c\<rparr>))
         (field z_string p get ''vpc_cidr''))
         (field z_string p get ''subnet_cidr''))
         (field z_string p get ''allowed_ip''))"

definition MCPConfigSchema :: "mcp_config schema" where
  "MCPConfigSchema p v =
     z_object p v (\<lambda>get.
       and_field (and_field (and_field (and_field (and_field
         (OK (\<lambda>a b c d e.
            \<lparr>server_name = a, allowed_targets = b, max_session_time = c,
             audit_enabled = d, log_level = e\<rparr>))
         (field z_string p get ''server_name''))
         (field z_array_string p get ''allowed_targets''))
         (field z_number p get ''max_session_time''))
         (field z_boolean p get ''audit_enabled''))
         (field z_string p get ''log_level''))"

text \<open>The slot schema \<open>z.union([InstanceSchema, DisabledInstanceSchema])\<close>.\<close>

definition SlotSchema :: "(string \<Rightarrow> bool) \<Rightarrow> slot schema" where
  "SlotSchema ip p v =
     map_parsed (case_sum Instance (\<lambda>u. DisabledInstance))
       (z_union (InstanceSchema ip) DisabledInstanceSchema p v)"

definition LabSchema :: "lab_info schema" where
  "LabSchema p v =
     z_object p v (\<lambda>get.
       and_field (and_field (and_field (and_field
         (OK (\<lambda>a b c d.
            \<lparr>name = a, lab_vpc_cidr = b, project = c, environment = d\<rparr>))
         (field z_string p get ''name''))
         (field z_string p get ''vpc_cidr''))
         (field (z_optional z_string) p get ''project''))
         (field (z_optional z_string) p get ''environment''))"

definition InstancesSchema :: "(string \<Rightarrow> bool) \<Rightarrow> instance_slots schema" where
  "InstancesSchema ip p v =
     z_object p v (\<lambda>get.
       and_field (and_field (and_field
         (OK (\<lambda>a b c. \<lparr>siem = a, victim = b, kali = c\<rparr>))
         (field (SlotSchema ip) p get ''siem''))
         (field (SlotSchema ip) p get ''victim''))
         (field (SlotSchema ip) p get ''kali''))"

definition LabConfigSchema :: "(string \<Rightarrow> bool) \<Rightarrow> LabConfig schema" where
  "LabConfigSchema ip p v =
     z_object p v (\<lambda>get.
       and_field (and_field (and_field (and_field (and_field (and_field
         (OK (\<lambda>a b c d e f.
            \<lparr>version = a, generated = b, lab = c, instances = d, network = e,
             mcp = f\<rparr>))
         (field z_string p get ''version''))
         (field z_string p get ''generated''))
         (field LabSchema p get ''lab''))
         (field (InstancesSchema ip) p get ''instances''))
         (field NetworkSchema p get ''network''))
         (field MCPConfigSchema p get ''mcp''))"

subsection \<open>Acceptance, and the shape of a payload in the specification's words\<close>

text \<open>
  A result is accepted when its status is valid; it is well reported when it has no
  issue exactly if it is accepted.
\<close>

definition valid :: "'a parsed \<Rightarrow> bool" where
  "valid r = (case snd r of Valid a \<Rightarrow> True | _ \<Rightarrow> False)"

definition well_reported :: "'a parsed \<Rightarrow> bool" where
  "well_reported r = (fst r = [] \<longleftrightarrow> valid r)"

text \<open>A result is typed when it is not aborted: no part had a wrong type.\<close>

definition typed :: "'a parsed \<Rightarrow> bool" where
  "typed r = (snd r \<noteq> Aborted)"

text \<open>The primitive types of the data model, on a value read from an object.\<close>

fun is_str :: "json option \<Rightarrow> bool" where
  "is_str (Some (JStr s)) = True"
| "is_str _ = False"

fun is_num :: "json option \<Rightarrow> bool" where
  "is_num (Some (JNum n)) = True"
| "is_num _ = False"

fun is_bool :: "json option \<Rightarrow> bool" where
  "is_bool (Some (JBool b)) = True"
| "is_bool _ = False"

fun is_object :: "json option \<Rightarrow> bool" where
  "is_object (Some (JObj members)) = True"
| "is_object _ = False"

fun is_array :: "json option \<Rightarrow> bool" where
  "is_array (Some (JArr items)) = True"
| "is_array _ = False"

fun is_ip_str :: "(string \<Rightarrow> bool) \<Rightarrow> json option \<Rightarrow> bool" where
  "is_ip_str ip (Some (JStr s)) = ip s"
| "is_ip_str ip _ = False"

fun is_str_array :: "json option \<Rightarrow> bool" where
  "is_str_array (Some (JArr items)) = list_all (\<lambda>item. is_str (Some item)) items"
| "is_str_array _ = False"

fun is_num_record :: "json option \<Rightarrow> bool" where
  "is_num_record (Some (JObj members)) = list_all (\<lambda>(k, x). is_num (Some x)) members"
| "is_num_record _ = False"

text \<open>
  The shape of section 3 of the specification: every required field present with its
  primitive type, at every level. Only the named fields are looked at.
\<close>

definition well_formed_instance :: "(string \<Rightarrow> bool) \<Rightarrow> json option \<Rightarrow> bool" where
  "well_formed_instance ip v =
     (case v of
        Some (JObj m) \<Rightarrow>
          is_ip_str ip (map_of m ''public_ip'') \<and>
          is_ip_str ip (map_of m ''private_ip'') \<and>
          is_str (map_of m ''ssh_key'') \<and>
          is_str (map_of m ''ssh_user'') \<and>
          is_str (map_of m ''instance_type'') \<and>
          (map_of m ''enabled'' = None \<or> is_bool (map_of m ''enabled'')) \<and>
          (map_of m ''ports'' = None \<or> is_num_record (map_of m ''ports''))
      | _ \<Rightarrow> False)"

definition marked_disabled :: "json option \<Rightarrow> bool" where
  "marked_disabled v =
     (case v of
        Some (JObj m) \<Rightarrow> map_of m ''enabled'' = Some (JBool False)
      | _ \<Rightarrow> False)"

definition conforms_slot :: "(string \<Rightarrow> bool) \<Rightarrow> json option \<Rightarrow> bool" where
  "conforms_slot ip v = (well_formed_instance ip v \<or> marked_disabled v)"

definition conforms_lab :: "json option \<Rightarrow> bool" where
  "conforms_lab v =
     (case v of
        Some (JObj m) \<Rightarrow>
          is_str (map_of m ''name'') \<and>
          is_str (map_of m ''vpc_cidr'') \<and>
          (map_of m ''project'' = None \<or> is_str (map_of m ''project'')) \<and>
          (map_of m ''environment'' = None \<or> is_str (map_of m ''environment''))
      | _ \<Rightarrow> False)"

definition conforms_instances :: "(string \<Rightarrow> bool) \<Rightarrow> json option \<Rightarrow> bool" where
  "conforms_instances ip v =
     (case v of
        Some (JObj m) \<Rightarrow>
          conforms_slot ip (map_of m ''siem'') \<and>
          conforms_slot ip (map_of m ''victim'') \<and>
          conforms_slot ip (map_of m ''kali'')
      | _ \<Rightarrow> False)"

definition conforms_network :: "json option \<Rightarrow> bool" where
  "conforms_network v =
     (case v of
        Some (JObj m) \<Rightarrow>
          is_str (map_of m ''vpc_cidr'') \<and>
          is_str (map_of m ''subnet_cidr'') \<and>
          is_str (map_of m ''allowed_ip'')
      | _ \<Rightarrow> False)"

definition conforms_mcp :: "json option \<Rightarrow> bool" where
  "conforms_mcp v =
     (case v of
        Some (JObj m) \<Rightarrow>
          is_str (map_of m ''server_name'') \<and>
          is_str_array (map_of m ''allowed_targets'') \<and>
          is_num (map_of m ''max_session_time'') \<and>
          is_bool (map_of m ''audit_enabled'') \<and>
          is_str (map_of m ''log_level'')
      | _ \<Rightarrow> False)"

definition conforms :: "(string \<Rightarrow> bool) \<Rightarrow> json \<Rightarrow> bool" where
  "conforms ip raw =
     (case raw of
        JObj m \<Rightarrow>
          is_str (map_of m ''version'') \<and>
          is_str (map_of m ''generated'') \<and>
          conforms_lab (map_of m ''lab'') \<and>
          conforms_instances ip (map_of m ''instances'') \<and>
          conforms_network (map_of m ''network'') \<and>
          conforms_mcp (map_of m ''mcp'')
      | _ \<Rightarrow> False)"

text \<open>
  Sample payloads: the properties of an instance object (without \<open>enabled\<close>), and a
  whole payload around three given slots; they validate to \<open>host\<close> and \<open>lab_with\<close>.
\<close>

definition raw_host :: "string \<Rightarrow> string \<Rightarrow> string \<Rightarrow> string \<Rightarrow> (string \<times> json) list" where
  "raw_host pub priv key user =
     [(''public_ip'', JStr pub), (''private_ip'', JStr priv), (''ssh_key'', JStr key),
      (''ssh_user'', JStr user), (''instance_type'', JStr ''t3.micro'')]"

definition raw_lab_with :: "json \<Rightarrow> json \<Rightarrow> json \<Rightarrow> (string \<times> json) list" where
  "raw_lab_with s v k =
     [(''version'', JStr ''1.0''), (''generated'', JStr ''2025-01-01T00:00:00Z''),
      (''lab'', JObj [(''name'', JStr ''aptl''), (''vpc_cidr'', JStr ''10.0.0.0/16'')]),
      (''instances'', JObj [(''siem'', s), (''victim'', v), (''kali'', k)]),
      (''network'', JObj [(''vpc_cidr'', JStr ''10.0.0.0/16''),
                          (''subnet_cidr'', JStr ''10.0.1.0/24''),
                          (''allowed_ip'', JStr ''203.0.113.7/32'')]),
      (''mcp'', JObj [(''server_name'', JStr ''kali-red-team''),
                      (''allowed_targets'', JArr [JStr ''10.0.1.0/24'']),
                      (''max_session_time'', JNum 3600),
                      (''audit_enabled'', JBool True),
                      (''log_level'', JStr ''info'')])]"

section \<open>Properties of the network policy\<close>

subsection \<open>Reading decimal digits\<close>

lemma digit_not_white_space: "is_digit c \<Longrightarrow> \<not> is_white_space c"
  by (auto simp: is_digit_def is_white_space_def)

lemma digit_not_sign: "is_digit c \<Longrightarrow> c \<noteq> CHR ''-'' \<and> c \<noteq> CHR ''+''"
  by (auto simp: is_digit_def)

lemma digit_value_range: "is_digit c \<Longrightarrow> 0 \<le> digit_value c \<and> digit_value c \<le> 9"
  by (auto simp: is_digit_def digit_value_def)

lemma foldl_digits_nonneg:
  "list_all is_digit ds \<Longrightarrow> 0 \<le> a \<Longrightarrow> 0 \<le> foldl (\<lambda>a c. 10 * a + digit_value c) a ds"
proof (induction ds arbitrary: a)
  case Nil
  then show ?case by simp
next
  case (Cons c ds)
  then have "0 \<le> 10 * a + digit_value c"
    using digit_value_range [of c] by simp
  with Cons show ?case by simp
qed

lemma decimal_value_nonneg: "list_all is_digit ds \<Longrightarrow> 0 \<le> decimal_value ds"
  by (simp add: decimal_value_def foldl_digits_nonneg)

lemma takeWhile_list_all: "list_all P xs \<Longrightarrow> takeWhile P xs = xs"
  by (induction xs) auto

lemma parseInt_digits:
  assumes "ds \<noteq> []" "list_all is_digit ds" "decimal_value ds < 2 ^ 53"
  shows "parseInt ds = Fin (decimal_value ds)"
proof -
  obtain c cs where ds: "ds = c # cs"
    using assms(1) by (cases ds) auto
  have c: "is_digit c"
    using assms(2) ds by simp
  have 1: "dropWhile is_white_space ds = ds"
    using digit_not_white_space [OF c] ds by simp
  have 2: "takeWhile is_digit ds = ds"
    using assms(2) by (rule takeWhile_list_all)
  have 3: "\<bar>decimal_value ds\<bar> < 2 ^ 53"
    using assms(3) decimal_value_nonneg [OF assms(2)] by simp
  show ?thesis
    unfolding parseInt_def 1 using digit_not_sign [OF c] 2 3 assms(1)
    by (simp add: ds Let_def round_to_double_def)
qed

lemma parseInt_octet:
  assumes "is_octet s"
  shows "parseInt s = Fin (decimal_value s)" "0 \<le> decimal_value s" "decimal_value s \<le> 255"
  using assms by (simp_all add: is_octet_def parseInt_digits decimal_value_nonneg)

lemma unat_word_of_small: "0 \<le> k \<Longrightarrow> k < 2 ^ 32 \<Longrightarrow> unat (word_of_int k :: 32 word) = nat k"
  by (simp add: unsigned_of_int take_bit_int_eq_self)

lemma shift_count:
  assumes "0 \<le> k" "k < 32"
  shows "unat ((word_of_int k :: 32 word) AND 31) = nat k"
proof -
  have u: "unat (word_of_int k :: 32 word) = nat k"
    using assms by (simp add: unat_word_of_small)
  have "(word_of_int k :: 32 word) < 2 ^ 5"
    using assms u by (simp add: word_less_nat_alt)
  then have "(word_of_int k :: 32 word) AND mask 5 = word_of_int k"
    by (rule less_mask_eq)
  then show ?thesis
    using u by (simp add: mask_eq_exp_minus_1)
qed

lemma js_shl_8: "js_shl acc (Fin 8) = Fin (sint (push_bit 8 (to_bits32 acc)))"
  using shift_count [of 8] by (simp add: js_shl_def)

lemma js_ushr_0: "js_ushr x (Fin 0) = Fin (uint (to_bits32 x))"
  by (simp add: js_ushr_def)

lemma round_small: "\<bar>n\<bar> < 2 ^ 53 \<Longrightarrow> round_to_double n = Fin n"
  by (simp add: round_to_double_def)

lemma sint_bounds32: "- (2 ^ 31) \<le> sint (w :: 32 word)" "sint (w :: 32 word) < 2 ^ 31"
  using sint_ge [of w] sint_lt [of w] by simp_all

lemma octet_step:
  assumes "is_octet s"
  shows "to_bits32 (js_add (js_shl acc (Fin 8)) (parseInt s))
           = push_bit 8 (to_bits32 acc) + word_of_int (decimal_value s)"
proof -
  let ?w = "push_bit 8 (to_bits32 acc) :: 32 word"
  let ?d = "decimal_value s"
  have "\<bar>sint ?w + ?d\<bar> < 2 ^ 53"
    using sint_bounds32 [of ?w] parseInt_octet(2,3) [OF assms] by simp
  then have "js_add (js_shl acc (Fin 8)) (parseInt s) = Fin (sint ?w + ?d)"
    by (simp add: js_shl_8 parseInt_octet(1) [OF assms] round_small)
  then show ?thesis by simp
qed

lemma length_four: "length xs = 4 \<Longrightarrow> \<exists>a b c d. xs = [a, b, c, d]"
  by (auto simp: length_Suc_conv numeral_eq_Suc)

lemma length_two: "length xs = 2 \<Longrightarrow> \<exists>a b. xs = [a, b]"
  by (auto simp: length_Suc_conv numeral_eq_Suc)

lemma ipToNumber_dotted_quad:
  assumes "is_dotted_quad s"
  shows "ipToNumber s = Fin (uint (packed_address s))"
proof -
  obtain a b c d where parts: "split_on CHR ''.'' s = [a, b, c, d]"
    using assms length_four unfolding is_dotted_quad_def Let_def by blast
  have oct: "is_octet a" "is_octet b" "is_octet c" "is_octet d"
    using assms parts by (simp_all add: is_dotted_quad_def)
  have "to_bits32 (foldl (\<lambda>acc octet. js_add (js_shl acc (Fin 8)) (parseInt octet)) (Fin 0)
          [a, b, c, d]) = packed_address s"
    by (simp add: octet_step oct packed_address_def parts push_bit_eq_mult algebra_simps)
  then show ?thesis
    by (simp add: ipToNumber_def js_ushr_0 parts)
qed

lemma mask_of_prefix:
  assumes "s \<noteq> []" "list_all is_digit s" "1 \<le> decimal_value s" "decimal_value s \<le> 32"
  shows "js_ushr (js_shl (Fin 4294967295) (js_sub (Fin 32) (parseInt s))) (Fin 0)
           = Fin (uint (prefix_mask (nat (decimal_value s))))"
proof -
  let ?n = "decimal_value s"
  have p: "parseInt s = Fin ?n"
    using assms by (simp add: parseInt_digits)
  have sub: "js_sub (Fin 32) (parseInt s) = Fin (32 - ?n)"
    using assms by (simp add: p js_sub_def round_small)
  have cnt: "unat ((word_of_int (32 - ?n) :: 32 word) AND 31) = nat (32 - ?n)"
    using assms by (intro shift_count) simp_all
  have n: "nat (32 - ?n) = 32 - nat ?n"
    using assms by simp
  have "js_shl (Fin 4294967295) (Fin (32 - ?n))
          = Fin (sint (push_bit (32 - nat ?n) (word_of_int 4294967295 :: 32 word)))"
    by (simp only: js_shl_def to_bits32.simps cnt n)
  moreover have "(4294967295 :: 32 word) = - 1"
    by simp
  ultimately show ?thesis
    by (simp add: sub js_ushr_0 prefix_mask_def)
qed

lemma js_and_uint: "js_and (Fin (uint (x :: 32 word))) (Fin (uint (m :: 32 word))) = Fin (sint (x AND m))"
  by (simp add: js_and_def)

lemma js_strict_eq_sint:
  "js_strict_eq (Fin (sint (x :: 32 word))) (Fin (sint y)) = (x = y)"
  using signed_word_eqI [of x y] by (auto simp: js_strict_eq_def)

lemma split_on_nonempty: "split_on sep s \<noteq> []"
  by (induction s) (auto split: list.splits)

lemma isIpInCidr_valid:
  assumes "is_dotted_quad target" "is_cidr c" "1 \<le> cidr_prefix c" "cidr_prefix c \<le> 32"
  shows "isIpInCidr target c = Inr (in_range target c)"
proof -
  obtain net p where parts: "split_on CHR ''/'' c = [net, p]"
    using assms(2) length_two unfolding is_cidr_def Let_def by blast
  have net: "is_dotted_quad net" and p: "p \<noteq> []" "list_all is_digit p"
    using assms(2) parts by (simp_all add: is_cidr_def is_prefix_length_def)
  have range: "1 \<le> decimal_value p" "decimal_value p \<le> 32"
    using assms(3,4) parts by (simp_all add: cidr_prefix_def)
  show ?thesis
    by (simp add: isIpInCidr_def parts js_index_def to_string_def
        ipToNumber_dotted_quad [OF assms(1)] ipToNumber_dotted_quad [OF net]
        mask_of_prefix [OF p range] js_and_uint js_strict_eq_sint
        in_range_def cidr_prefix_def cidr_network_def)
qed

lemma isIpInCidr_total: "\<exists>b. isIpInCidr target c = Inr b"
  using split_on_nonempty [of "CHR ''/''" c]
  by (cases "split_on CHR ''/'' c") (simp_all add: isIpInCidr_def js_index_def Let_def)

lemma isTargetAllowed_iff:
  "isTargetAllowed target cidrs = Inr (\<exists>c\<in>set cidrs. isIpInCidr target c = Inr True)"
proof (induction cidrs)
  case Nil
  then show ?case by simp
next
  case (Cons c cidrs)
  obtain b where "isIpInCidr target c = Inr b"
    using isIpInCidr_total by blast
  with Cons show ?case by (cases b) simp_all
qed

lemma prefix_mask_bit: "bit (prefix_mask p) i \<longleftrightarrow> i < 32 \<and> 32 - p \<le> i"
  by (auto simp: prefix_mask_def bit_simps)

lemma isTargetAllowed_valid:
  assumes "is_dotted_quad target"
    and "\<forall>c\<in>set cidrs. is_cidr c \<and> 1 \<le> cidr_prefix c \<and> cidr_prefix c \<le> 32"
  shows "isTargetAllowed target cidrs = Inr (\<exists>c\<in>set cidrs. in_range target c)"
proof -
  have "\<forall>c\<in>set cidrs. isIpInCidr target c = Inr (in_range target c)"
    using assms by (simp add: isIpInCidr_valid)
  then show ?thesis
    by (simp add: isTargetAllowed_iff)
qed

lemma example_in_range: "isTargetAllowed ''10.0.1.5'' [''10.0.1.0/24''] = Inr True"
  by code_simp

lemma example_out_of_range: "isTargetAllowed ''10.0.2.5'' [''10.0.1.0/24''] = Inr False"
  by code_simp

text \<open>
  The mask for prefix 0. \<open>32 - 0\<close> is 32, and a shift by 32 is a shift by
  \<open>32 mod 32 = 0\<close>: the mask is all ones, as for prefix 32.
\<close>

lemma mask_of_prefix_zero:
  "js_ushr (js_shl (Fin 4294967295) (js_sub (Fin 32) (parseInt ''0''))) (Fin 0)
     = Fin 4294967295"
  by code_simp

lemma and_all_ones: "(w :: 32 word) AND 4294967295 = w"
proof -
  have "(4294967295 :: 32 word) = - 1"
    by simp
  then show ?thesis
    by (simp only: and.right_neutral)
qed

lemma isIpInCidr_prefix_zero:
  assumes "is_dotted_quad target"
  shows "isIpInCidr target ''0.0.0.0/0'' = Inr (packed_address target = 0)"
proof -
  have parts: "split_on CHR ''/'' ''0.0.0.0/0'' = [''0.0.0.0'', ''0'']"
    by code_simp
  have net: "ipToNumber ''0.0.0.0'' = Fin 0"
    by code_simp
  show ?thesis
    by (simp add: isIpInCidr_def parts js_index_def to_string_def net mask_of_prefix_zero
        ipToNumber_dotted_quad [OF assms] js_and_def js_strict_eq_def signed_eq_0_iff
        and_all_ones)
qed

text \<open>
  C1. The range \<open>0.0.0.0/0\<close> should admit every well-formed address. It does not: the
  address \<open>10.0.1.5\<close> is well-formed, the range is well-formed with prefix 0, and
  \<open>isTargetAllowed\<close> answers \<open>false\<close>.
\<close>

theorem prefix_zero_rejects_address:
  "is_dotted_quad ''10.0.1.5'' \<and> is_cidr ''0.0.0.0/0'' \<and> cidr_prefix ''0.0.0.0/0'' = 0 \<and>
   isTargetAllowed ''10.0.1.5'' [''0.0.0.0/0''] = Inr False"
  by code_simp

text \<open>
  C2. For a well-formed dotted-quad target and ranges that are well-formed with a
  prefix from 1 to 32, \<open>isTargetAllowed\<close> answers \<open>true\<close> iff for some range the
  big-endian packed target and network address agree under the mask of \<open>prefix\<close>
  leading one-bits. In particular \<open>10.0.1.5\<close> is in \<open>10.0.1.0/24\<close> and \<open>10.0.2.5\<close> is
  not.
\<close>

theorem isTargetAllowed_membership:
  "(is_dotted_quad target \<and>
    (\<forall>c\<in>set cidrs. is_cidr c \<and> 1 \<le> cidr_prefix c \<and> cidr_prefix c \<le> 32)
      \<longrightarrow> isTargetAllowed target cidrs = Inr (\<exists>c\<in>set cidrs. in_range target c)) \<and>
   isTargetAllowed ''10.0.1.5'' [''10.0.1.0/24''] = Inr True \<and>
   isTargetAllowed ''10.0.2.5'' [''10.0.1.0/24''] = Inr False"
  using isTargetAllowed_valid example_in_range example_out_of_range by blast

theorem isTargetAllowed_membership_witness:
  "is_dotted_quad ''192.168.7.9'' \<and>
   is_cidr ''10.0.1.0/24'' \<and> cidr_prefix ''10.0.1.0/24'' = 24 \<and>
   is_cidr ''192.168.0.0/16'' \<and> cidr_prefix ''192.168.0.0/16'' = 16 \<and>
   isTargetAllowed ''192.168.7.9'' [''10.0.1.0/24'', ''192.168.0.0/16'']
     = Inr (\<exists>c\<in>set [''10.0.1.0/24'', ''192.168.0.0/16'']. in_range ''192.168.7.9'' c) \<and>
   in_range ''192.168.7.9'' ''192.168.0.0/16'' \<and>
   \<not> in_range ''192.168.7.9'' ''10.0.1.0/24''"
proof -
  have target: "is_dotted_quad ''192.168.7.9''"
    by code_simp
  have first: "is_cidr ''10.0.1.0/24'' \<and> cidr_prefix ''10.0.1.0/24'' = 24"
    by code_simp
  have second: "is_cidr ''192.168.0.0/16'' \<and> cidr_prefix ''192.168.0.0/16'' = 16"
    by code_simp
  have inside: "in_range ''192.168.7.9'' ''192.168.0.0/16''"
    by code_simp
  have outside: "\<not> in_range ''192.168.7.9'' ''10.0.1.0/24''"
    by code_simp
  have "isTargetAllowed ''192.168.7.9'' [''10.0.1.0/24'', ''192.168.0.0/16'']
     = Inr (\<exists>c\<in>set [''10.0.1.0/24'', ''192.168.0.0/16'']. in_range ''192.168.7.9'' c)"
    using isTargetAllowed_membership
      [of "''192.168.7.9''" "[''10.0.1.0/24'', ''192.168.0.0/16'']"] target first second
    by simp
  with target first second inside outside show ?thesis
    by blast
qed

text \<open>
  C8, as the specification states it, fails: \<open>garbage\<close> is no range, yet it matches
  the target \<open>0.0.0.0\<close>. Its text is read as the number 0 and the missing prefix as
  the full mask.
\<close>

theorem unparsable_range_matches:
  "\<not> is_cidr ''garbage'' \<and> isTargetAllowed ''0.0.0.0'' [''garbage''] = Inr True"
  by code_simp

lemma ipToNumber_unsigned: "ipToNumber s = Fin (uint (to_bits32 (ipToNumber s)))"
  by (simp add: ipToNumber_def js_ushr_0)

lemma mask_of_unreadable_prefix:
  "js_ushr (js_shl (Fin 4294967295) (js_sub (Fin 32) NaN)) (Fin 0) = Fin 4294967295"
  by code_simp

lemma js_and_all_ones: "js_and x (Fin 4294967295) = Fin (sint (to_bits32 x))"
  by (simp add: js_and_def and_all_ones)

lemma isIpInCidr_unreadable_prefix:
  assumes "parseInt (to_string (js_index (split_on CHR ''/'' cidr) 1)) = NaN"
  shows "isIpInCidr target cidr
     = Inr (ipToNumber target = ipToNumber (hd (split_on CHR ''/'' cidr)))"
proof -
  obtain net rest where parts: "split_on CHR ''/'' cidr = net # rest"
    using split_on_nonempty [of "CHR ''/''" cidr] by (cases "split_on CHR ''/'' cidr") auto
  have eq: "js_strict_eq (Fin (sint (to_bits32 (ipToNumber target))))
              (Fin (sint (to_bits32 (ipToNumber net))))
            \<longleftrightarrow> ipToNumber target = ipToNumber net"
    using ipToNumber_unsigned [of target] ipToNumber_unsigned [of net]
    by (metis js_strict_eq_sint)
  show ?thesis
    using assms
    by (simp add: isIpInCidr_def parts js_index_def Let_def mask_of_unreadable_prefix
        js_and_all_ones eq)
qed

text \<open>
  C8, amended. \<open>isTargetAllowed\<close> has no error path: for every target and every list
  of ranges, each comparison returns a boolean, the call returns a boolean, and it
  is \<open>true\<close> iff \<open>isIpInCidr\<close> returns \<open>true\<close> for at least one of the ranges. An
  unparsable range does not always contribute \<open>false\<close>: when \<open>parseInt\<close> reads no
  number from the prefix length of a range (it returns \<open>NaN\<close>: the range has no slash,
  or what follows the first slash does not begin, after white space and a sign, with
  a digit), the comparison is made under the all-ones mask, so the range matches
  exactly when \<open>ipToNumber\<close> gives the same number for the target and for the text
  before the first slash.
\<close>

theorem isTargetAllowed_total:
  "(\<forall>c. \<exists>b. isIpInCidr target c = Inr b) \<and>
   (\<exists>b. isTargetAllowed target cidrs = Inr b) \<and>
   isTargetAllowed target cidrs = Inr (\<exists>c\<in>set cidrs. isIpInCidr target c = Inr True) \<and>
   (parseInt (to_string (js_index (split_on CHR ''/'' cidr) 1)) = NaN
      \<longrightarrow> isIpInCidr target cidr
            = Inr (ipToNumber target = ipToNumber (hd (split_on CHR ''/'' cidr))))"
  using isIpInCidr_total isTargetAllowed_iff isIpInCidr_unreadable_prefix by blast

theorem isTargetAllowed_total_witness:
  "isTargetAllowed ''10.0.1.5'' [''bogus'', ''10.0.1.0/24'']
     = Inr (\<exists>c\<in>set [''bogus'', ''10.0.1.0/24'']. isIpInCidr ''10.0.1.5'' c = Inr True) \<and>
   isIpInCidr ''10.0.1.5'' ''bogus'' = Inr False \<and>
   isIpInCidr ''10.0.1.5'' ''10.0.1.0/24'' = Inr True \<and>
   parseInt (to_string (js_index (split_on CHR ''/'' ''10.0.1.5/all'') 1)) = NaN \<and>
   isIpInCidr ''10.0.1.5'' ''10.0.1.5/all'' = Inr True \<and>
   isIpInCidr ''10.0.1.6'' ''10.0.1.5/all'' = Inr False"
proof -
  have "isIpInCidr ''10.0.1.5'' ''bogus'' = Inr False"
    by code_simp
  moreover have "isIpInCidr ''10.0.1.5'' ''10.0.1.0/24'' = Inr True"
    by code_simp
  moreover have "isTargetAllowed ''10.0.1.5'' [''bogus'', ''10.0.1.0/24'']
     = Inr (\<exists>c\<in>set [''bogus'', ''10.0.1.0/24'']. isIpInCidr ''10.0.1.5'' c = Inr True)"
    using isTargetAllowed_total [of "''10.0.1.5''" "[''bogus'', ''10.0.1.0/24'']"]
    by blast
  moreover have unreadable:
    "parseInt (to_string (js_index (split_on CHR ''/'' ''10.0.1.5/all'') 1)) = NaN"
    by code_simp
  moreover have network: "hd (split_on CHR ''/'' ''10.0.1.5/all'') = ''10.0.1.5''"
    by code_simp
  moreover have "ipToNumber ''10.0.1.6'' \<noteq> ipToNumber ''10.0.1.5''"
    by code_simp
  moreover have "isIpInCidr ''10.0.1.5'' ''10.0.1.5/all''
      = Inr (ipToNumber ''10.0.1.5'' = ipToNumber (hd (split_on CHR ''/'' ''10.0.1.5/all'')))"
    using isTargetAllowed_total [where target = "''10.0.1.5''" and cidr = "''10.0.1.5/all''"]
      unreadable
    by blast
  moreover have "isIpInCidr ''10.0.1.6'' ''10.0.1.5/all''
      = Inr (ipToNumber ''10.0.1.6'' = ipToNumber (hd (split_on CHR ''/'' ''10.0.1.5/all'')))"
    using isTargetAllowed_total [where target = "''10.0.1.6''" and cidr = "''10.0.1.5/all''"]
      unreadable
    by blast
  ultimately show ?thesis
    by (simp only: network simp_thms)
qed

section \<open>Properties of credential selection\<close>

lemma matching_instance_carries:
  "matching_instance sl target = None \<longleftrightarrow> \<not> carries_address sl target"
  by (cases sl) (simp_all add: carries_address_def)

lemma carries_address_disabled: "\<not> carries_address DisabledInstance target"
  by (simp add: carries_address_def)

lemma matching_instance_Some:
  "sl = Instance i \<Longrightarrow> public_ip i = target \<or> private_ip i = target \<Longrightarrow>
   matching_instance sl target = Some i"
  by auto

lemma selectCredentials_siem:
  assumes "siem (instances config) = Instance s"
    and "public_ip s = target \<or> private_ip s = target"
  shows "selectCredentials target config d = Inr \<lparr>sshKey = ssh_key s, username = ssh_user s\<rparr>"
  using assms by (auto simp add: selectCredentials_def)

lemma selectCredentials_victim:
  assumes "\<not> carries_address (siem (instances config)) target"
    and "victim (instances config) = Instance v"
    and "public_ip v = target \<or> private_ip v = target"
  shows "selectCredentials target config d = Inr \<lparr>sshKey = ssh_key v, username = ssh_user v\<rparr>"
proof -
  have "matching_instance (siem (instances config)) target = None"
    using assms(1) by (simp add: matching_instance_carries)
  moreover have "matching_instance (victim (instances config)) target = Some v"
    using assms(2,3) by (rule matching_instance_Some)
  ultimately show ?thesis
    by (simp add: selectCredentials_def)
qed

lemma selectCredentials_kali:
  assumes "\<not> carries_address (siem (instances config)) target"
    and "\<not> carries_address (victim (instances config)) target"
    and "kali (instances config) = Instance k"
    and "public_ip k = target \<or> private_ip k = target"
  shows "selectCredentials target config d = Inr \<lparr>sshKey = ssh_key k, username = ssh_user k\<rparr>"
proof -
  have "matching_instance (siem (instances config)) target = None"
    "matching_instance (victim (instances config)) target = None"
    using assms(1,2) by (simp_all add: matching_instance_carries)
  moreover have "matching_instance (kali (instances config)) target = Some k"
    using assms(3,4) by (rule matching_instance_Some)
  ultimately show ?thesis
    by (simp add: selectCredentials_def)
qed

lemma selectCredentials_fallback:
  assumes "\<not> carries_address (siem (instances config)) target"
    and "\<not> carries_address (victim (instances config)) target"
    and "\<not> carries_address (kali (instances config)) target"
  shows "selectCredentials target config d =
     (case kali (instances config) of
        Instance k \<Rightarrow> Inr \<lparr>sshKey = ssh_key k, username = default_username d\<rparr>
      | DisabledInstance \<Rightarrow> Inl KaliNotAvailable)"
proof -
  have "matching_instance (siem (instances config)) target = None"
    "matching_instance (victim (instances config)) target = None"
    "matching_instance (kali (instances config)) target = None"
    using assms by (simp_all add: matching_instance_carries)
  then show ?thesis
    by (simp add: selectCredentials_def split: slot.splits)
qed

lemma matching_instance_with_enabled:
  "matching_instance (with_enabled b sl) target
     = map_option (\<lambda>i. i\<lparr>enabled := b\<rparr>) (matching_instance sl target)"
  by (cases sl) simp_all

lemma selectCredentials_ignores_enabled:
  "selectCredentials target
     (config\<lparr>instances :=
        \<lparr>siem = with_enabled a (siem (instances config)),
         victim = with_enabled b (victim (instances config)),
         kali = with_enabled c (kali (instances config))\<rparr>\<rparr>) d
   = selectCredentials target config d"
  by (cases "siem (instances config)"; cases "victim (instances config)";
      cases "kali (instances config)")
     (simp_all add: selectCredentials_def)

text \<open>
  C3. The target is tested against the public and the private address of \<open>siem\<close>, then
  \<open>victim\<close>, then \<open>kali\<close>, and the first slot that carries it answers with its own key
  and its own user; a disabled slot carries no address. Nothing is asked of the later
  slots: when \<open>siem\<close> carries the target, \<open>siem\<close> answers whatever \<open>victim\<close> and
  \<open>kali\<close> hold.
\<close>

theorem selectCredentials_priority:
  "(siem (instances config) = Instance s \<and> (public_ip s = target \<or> private_ip s = target)
      \<longrightarrow> selectCredentials target config d
            = Inr \<lparr>sshKey = ssh_key s, username = ssh_user s\<rparr>) \<and>
   (\<not> carries_address (siem (instances config)) target \<and>
    victim (instances config) = Instance v \<and> (public_ip v = target \<or> private_ip v = target)
      \<longrightarrow> selectCredentials target config d
            = Inr \<lparr>sshKey = ssh_key v, username = ssh_user v\<rparr>) \<and>
   (\<not> carries_address (siem (instances config)) target \<and>
    \<not> carries_address (victim (instances config)) target \<and>
    kali (instances config) = Instance k \<and> (public_ip k = target \<or> private_ip k = target)
      \<longrightarrow> selectCredentials target config d
            = Inr \<lparr>sshKey = ssh_key k, username = ssh_user k\<rparr>) \<and>
   \<not> carries_address DisabledInstance target"
  using selectCredentials_siem selectCredentials_victim selectCredentials_kali
  by (simp add: carries_address_def)

theorem selectCredentials_priority_witness:
  "selectCredentials ''1.1.1.1''
     (lab_with (Instance (host ''1.1.1.1'' ''10.0.1.10'' ''siem.pem'' ''ec2-user'' True))
               (Instance (host ''1.1.1.1'' ''10.0.1.20'' ''victim.pem'' ''victim-user'' True))
               (Instance (host ''3.3.3.3'' ''1.1.1.1'' ''kali.pem'' ''kali-admin'' True)))
     None
     = Inr \<lparr>sshKey = ''siem.pem'', username = ''ec2-user''\<rparr> \<and>
   selectCredentials ''10.0.1.20''
     (lab_with DisabledInstance
               (Instance (host ''2.2.2.2'' ''10.0.1.20'' ''victim.pem'' ''victim-user'' True))
               (Instance (host ''3.3.3.3'' ''10.0.1.20'' ''kali.pem'' ''kali-admin'' True)))
     None
     = Inr \<lparr>sshKey = ''victim.pem'', username = ''victim-user''\<rparr> \<and>
   selectCredentials ''3.3.3.3''
     (lab_with (Instance (host ''1.1.1.1'' ''10.0.1.10'' ''siem.pem'' ''ec2-user'' True))
               DisabledInstance
               (Instance (host ''3.3.3.3'' ''10.0.1.30'' ''kali.pem'' ''kali-admin'' True)))
     (Some ''operator'')
     = Inr \<lparr>sshKey = ''kali.pem'', username = ''kali-admin''\<rparr>"
proof -
  let ?siem = "host ''1.1.1.1'' ''10.0.1.10'' ''siem.pem'' ''ec2-user'' True"
  let ?victim = "host ''2.2.2.2'' ''10.0.1.20'' ''victim.pem'' ''victim-user'' True"
  let ?kali = "host ''3.3.3.3'' ''10.0.1.30'' ''kali.pem'' ''kali-admin'' True"
  have first: "selectCredentials ''1.1.1.1''
     (lab_with (Instance ?siem)
               (Instance (host ''1.1.1.1'' ''10.0.1.20'' ''victim.pem'' ''victim-user'' True))
               (Instance (host ''3.3.3.3'' ''1.1.1.1'' ''kali.pem'' ''kali-admin'' True)))
     None
     = Inr \<lparr>sshKey = ssh_key ?siem, username = ssh_user ?siem\<rparr>"
    using selectCredentials_priority [where s = ?siem and target = "''1.1.1.1''"]
    by (simp add: lab_with_def host_def)
  have second: "selectCredentials ''10.0.1.20''
     (lab_with DisabledInstance (Instance ?victim)
               (Instance (host ''3.3.3.3'' ''10.0.1.20'' ''kali.pem'' ''kali-admin'' True)))
     None
     = Inr \<lparr>sshKey = ssh_key ?victim, username = ssh_user ?victim\<rparr>"
    using selectCredentials_priority [where v = ?victim and target = "''10.0.1.20''"]
    by (simp add: lab_with_def host_def carries_address_def)
  have third: "selectCredentials ''3.3.3.3''
     (lab_with (Instance ?siem) DisabledInstance (Instance ?kali)) (Some ''operator'')
     = Inr \<lparr>sshKey = ssh_key ?kali, username = ssh_user ?kali\<rparr>"
    using selectCredentials_priority [where k = ?kali and target = "''3.3.3.3''"]
    by (simp add: lab_with_def host_def carries_address_def)
  from first second third show ?thesis
    by (simp add: host_def)
qed

text \<open>
  C4. When no slot carries the target: if \<open>kali\<close> is an instance, the answer is its key
  with the caller's \<open>defaultUsername\<close> (\<open>kali\<close> when the caller gives none), not
  \<open>kali\<close>'s own user; if \<open>kali\<close> is disabled, the call fails.
\<close>

theorem selectCredentials_no_match:
  "(\<not> carries_address (siem (instances config)) target \<and>
    \<not> carries_address (victim (instances config)) target \<and>
    \<not> carries_address (kali (instances config)) target \<and>
    kali (instances config) = Instance k
      \<longrightarrow> selectCredentials target config (Some u)
              = Inr \<lparr>sshKey = ssh_key k, username = u\<rparr> \<and>
          selectCredentials target config None
              = Inr \<lparr>sshKey = ssh_key k, username = ''kali''\<rparr>) \<and>
   (\<not> carries_address (siem (instances config)) target \<and>
    \<not> carries_address (victim (instances config)) target \<and>
    kali (instances config) = DisabledInstance
      \<longrightarrow> selectCredentials target config d = Inl KaliNotAvailable)"
  by (auto simp add: selectCredentials_fallback carries_address_disabled
      default_username_def)

theorem selectCredentials_no_match_witness:
  "selectCredentials ''9.9.9.9''
     (lab_with (Instance (host ''1.1.1.1'' ''10.0.1.10'' ''siem.pem'' ''ec2-user'' True))
               DisabledInstance
               (Instance (host ''3.3.3.3'' ''10.0.1.30'' ''kali.pem'' ''kali-admin'' True)))
     (Some ''operator'')
     = Inr \<lparr>sshKey = ''kali.pem'', username = ''operator''\<rparr> \<and>
   selectCredentials ''9.9.9.9''
     (lab_with (Instance (host ''1.1.1.1'' ''10.0.1.10'' ''siem.pem'' ''ec2-user'' True))
               (Instance (host ''2.2.2.2'' ''10.0.1.20'' ''victim.pem'' ''victim-user'' True))
               DisabledInstance)
     None
     = Inl KaliNotAvailable"
proof -
  let ?siem = "host ''1.1.1.1'' ''10.0.1.10'' ''siem.pem'' ''ec2-user'' True"
  let ?victim = "host ''2.2.2.2'' ''10.0.1.20'' ''victim.pem'' ''victim-user'' True"
  let ?kali = "host ''3.3.3.3'' ''10.0.1.30'' ''kali.pem'' ''kali-admin'' True"
  have enabled: "selectCredentials ''9.9.9.9''
     (lab_with (Instance ?siem) DisabledInstance (Instance ?kali)) (Some ''operator'')
     = Inr \<lparr>sshKey = ssh_key ?kali, username = ''operator''\<rparr>"
    using selectCredentials_no_match
      [where k = ?kali and target = "''9.9.9.9''" and u = "''operator''"
         and config = "lab_with (Instance ?siem) DisabledInstance (Instance ?kali)"]
    by (simp add: lab_with_def host_def carries_address_def)
  have disabled: "selectCredentials ''9.9.9.9''
     (lab_with (Instance ?siem) (Instance ?victim) DisabledInstance) None
     = Inl KaliNotAvailable"
    using selectCredentials_no_match
      [where target = "''9.9.9.9''" and d = None
         and config = "lab_with (Instance ?siem) (Instance ?victim) DisabledInstance"]
    by (simp add: lab_with_def host_def carries_address_def)
  from enabled disabled show ?thesis
    by (simp add: host_def)
qed

text \<open>
  C10. A slot that is an instance with \<open>enabled = false\<close> is tested like any other
  instance and answers with its own credentials; the value of the flag never enters:
  changing the flags of the three slots in any way leaves the answer unchanged.
\<close>

theorem selectCredentials_enabled_flag_unused:
  "(siem (instances config) = Instance s \<and> enabled s = False \<and>
    (public_ip s = target \<or> private_ip s = target)
      \<longrightarrow> selectCredentials target config d
            = Inr \<lparr>sshKey = ssh_key s, username = ssh_user s\<rparr>) \<and>
   (\<not> carries_address (siem (instances config)) target \<and>
    victim (instances config) = Instance v \<and> enabled v = False \<and>
    (public_ip v = target \<or> private_ip v = target)
      \<longrightarrow> selectCredentials target config d
            = Inr \<lparr>sshKey = ssh_key v, username = ssh_user v\<rparr>) \<and>
   (\<not> carries_address (siem (instances config)) target \<and>
    \<not> carries_address (victim (instances config)) target \<and>
    kali (instances config) = Instance k \<and> enabled k = False \<and>
    (public_ip k = target \<or> private_ip k = target)
      \<longrightarrow> selectCredentials target config d
            = Inr \<lparr>sshKey = ssh_key k, username = ssh_user k\<rparr>) \<and>
   selectCredentials target
     (config\<lparr>instances :=
        \<lparr>siem = with_enabled a (siem (instances config)),
         victim = with_enabled b (victim (instances config)),
         kali = with_enabled c (kali (instances config))\<rparr>\<rparr>) d
     = selectCredentials target config d"
  using selectCredentials_siem selectCredentials_victim selectCredentials_kali
    selectCredentials_ignores_enabled
  by simp

theorem selectCredentials_enabled_flag_unused_witness:
  "selectCredentials ''1.1.1.1''
     (lab_with (Instance (host ''1.1.1.1'' ''10.0.1.10'' ''siem.pem'' ''ec2-user'' False))
               (Instance (host ''2.2.2.2'' ''10.0.1.20'' ''victim.pem'' ''victim-user'' True))
               (Instance (host ''3.3.3.3'' ''10.0.1.30'' ''kali.pem'' ''kali-admin'' True)))
     None
     = Inr \<lparr>sshKey = ''siem.pem'', username = ''ec2-user''\<rparr> \<and>
   selectCredentials ''10.0.1.20''
     (lab_with (Instance (host ''1.1.1.1'' ''10.0.1.10'' ''siem.pem'' ''ec2-user'' False))
               (Instance (host ''2.2.2.2'' ''10.0.1.20'' ''victim.pem'' ''victim-user'' False))
               (Instance (host ''3.3.3.3'' ''10.0.1.30'' ''kali.pem'' ''kali-admin'' True)))
     None
     = Inr \<lparr>sshKey = ''victim.pem'', username = ''victim-user''\<rparr> \<and>
   selectCredentials ''3.3.3.3''
     (lab_with DisabledInstance DisabledInstance
               (Instance (host ''3.3.3.3'' ''10.0.1.30'' ''kali.pem'' ''kali-admin'' False)))
     None
     = Inr \<lparr>sshKey = ''kali.pem'', username = ''kali-admin''\<rparr>"
proof -
  let ?siem = "host ''1.1.1.1'' ''10.0.1.10'' ''siem.pem'' ''ec2-user'' False"
  let ?victim = "host ''2.2.2.2'' ''10.0.1.20'' ''victim.pem'' ''victim-user'' False"
  let ?kali = "host ''3.3.3.3'' ''10.0.1.30'' ''kali.pem'' ''kali-admin'' False"
  have first: "selectCredentials ''1.1.1.1''
     (lab_with (Instance ?siem)
               (Instance (host ''2.2.2.2'' ''10.0.1.20'' ''victim.pem'' ''victim-user'' True))
               (Instance (host ''3.3.3.3'' ''10.0.1.30'' ''kali.pem'' ''kali-admin'' True)))
     None
     = Inr \<lparr>sshKey = ssh_key ?siem, username = ssh_user ?siem\<rparr>"
    using selectCredentials_enabled_flag_unused [where s = ?siem and target = "''1.1.1.1''"]
    by (simp add: lab_with_def host_def)
  have second: "selectCredentials ''10.0.1.20''
     (lab_with (Instance ?siem) (Instance ?victim)
               (Instance (host ''3.3.3.3'' ''10.0.1.30'' ''kali.pem'' ''kali-admin'' True)))
     None
     = Inr \<lparr>sshKey = ssh_key ?victim, username = ssh_user ?victim\<rparr>"
    using selectCredentials_enabled_flag_unused [where v = ?victim and target = "''10.0.1.20''"]
    by (simp add: lab_with_def host_def carries_address_def)
  have third: "selectCredentials ''3.3.3.3''
     (lab_with DisabledInstance DisabledInstance (Instance ?kali)) None
     = Inr \<lparr>sshKey = ssh_key ?kali, username = ssh_user ?kali\<rparr>"
    using selectCredentials_enabled_flag_unused [where k = ?kali and target = "''3.3.3.3''"]
    by (simp add: lab_with_def host_def carries_address_def)
  from first second third show ?thesis
    by (simp add: host_def)
qed

section \<open>Properties of root discovery\<close>

lemma known_first:
  assumes "existsSync (knownLocations ! 0)" "has_marker existsSync (knownLocations ! 0)"
  shows "findTerraformRoot existsSync cwd = Inr (knownLocations ! 0)"
  using assms by (simp add: findTerraformRoot_def knownLocations_def has_marker_def)

lemma known_second:
  assumes "\<not> (existsSync (knownLocations ! 0) \<and> has_marker existsSync (knownLocations ! 0))"
    and "existsSync (knownLocations ! 1)" "has_marker existsSync (knownLocations ! 1)"
  shows "findTerraformRoot existsSync cwd = Inr (knownLocations ! 1)"
  using assms by (auto simp add: findTerraformRoot_def knownLocations_def has_marker_def)

lemma known_none:
  assumes "\<not> (existsSync (knownLocations ! 0) \<and> has_marker existsSync (knownLocations ! 0))"
    and "\<not> (existsSync (knownLocations ! 1) \<and> has_marker existsSync (knownLocations ! 1))"
  shows "findTerraformRoot existsSync cwd = search_upward existsSync cwd 0"
  using assms by (auto simp add: findTerraformRoot_def knownLocations_def has_marker_def)

lemma second_is_infrastructure:
  "knownLocations ! 1 = resolve (knownLocations ! 0) ''infrastructure''"
  by (simp add: knownLocations_def resolve_def)

text \<open>
  C9, as the specification states it, fails. In the layout whose only marker file is
  \<open>/home/atomik/src/aptl/infrastructure/infrastructure/main.tf\<close>, the second known
  location exists and holds a marker inside its \<open>infrastructure\<close> subdirectory, yet
  the first loop returns nothing, and from \<open>/srv/work\<close> the search fails.
\<close>

theorem known_location_subdirectory_not_probed:
  "qualifies_by_spec
     (file_tree [[''home'', ''atomik'', ''src'', ''aptl'', ''infrastructure'',
                  ''infrastructure'', ''main.tf''],
                 [''srv'', ''work'', ''README.md'']])
     [''home'', ''atomik'', ''src'', ''aptl'', ''infrastructure''] \<and>
   check_known_locations
     (file_tree [[''home'', ''atomik'', ''src'', ''aptl'', ''infrastructure'',
                  ''infrastructure'', ''main.tf''],
                 [''srv'', ''work'', ''README.md'']])
     knownLocations = None \<and>
   findTerraformRoot
     (file_tree [[''home'', ''atomik'', ''src'', ''aptl'', ''infrastructure'',
                  ''infrastructure'', ''main.tf''],
                 [''srv'', ''work'', ''README.md'']])
     [''srv'', ''work''] = Inl TerraformRootNotFound"
  by code_simp

text \<open>
  C9, amended. A known location is returned, before any upward walk, iff it is the
  first in the list that exists and holds a marker file at its top level; with none,
  the result is that of the upward walk. The \<open>infrastructure\<close> subdirectory of the
  first known location is covered because it is the second known location.
\<close>

theorem known_location_fast_path:
  "(existsSync (knownLocations ! 0) \<and> has_marker existsSync (knownLocations ! 0)
      \<longrightarrow> findTerraformRoot existsSync cwd = Inr (knownLocations ! 0)) \<and>
   (\<not> (existsSync (knownLocations ! 0) \<and> has_marker existsSync (knownLocations ! 0)) \<and>
    existsSync (knownLocations ! 1) \<and> has_marker existsSync (knownLocations ! 1)
      \<longrightarrow> findTerraformRoot existsSync cwd = Inr (knownLocations ! 1)) \<and>
   (\<not> (existsSync (knownLocations ! 0) \<and> has_marker existsSync (knownLocations ! 0)) \<and>
    \<not> (existsSync (knownLocations ! 1) \<and> has_marker existsSync (knownLocations ! 1))
      \<longrightarrow> findTerraformRoot existsSync cwd = search_upward existsSync cwd 0) \<and>
   length knownLocations = 2 \<and>
   knownLocations ! 1 = resolve (knownLocations ! 0) ''infrastructure''"
  using known_first known_second known_none second_is_infrastructure
  by (simp add: knownLocations_def)

theorem known_location_fast_path_witness:
  "findTerraformRoot
     (file_tree [[''home'', ''atomik'', ''src'', ''aptl'', ''outputs.tf''],
                 [''home'', ''atomik'', ''src'', ''aptl'', ''infrastructure'', ''main.tf''],
                 [''srv'', ''work'', ''README.md'']])
     [''srv'', ''work'']
     = Inr [''home'', ''atomik'', ''src'', ''aptl''] \<and>
   findTerraformRoot
     (file_tree [[''home'', ''atomik'', ''src'', ''aptl'', ''infrastructure'', ''main.tf''],
                 [''srv'', ''work'', ''README.md'']])
     [''srv'', ''work'']
     = Inr [''home'', ''atomik'', ''src'', ''aptl'', ''infrastructure''] \<and>
   findTerraformRoot
     (file_tree [[''srv'', ''infrastructure'', ''main.tf''],
                 [''srv'', ''work'', ''README.md'']])
     [''srv'', ''work'']
     = search_upward
         (file_tree [[''srv'', ''infrastructure'', ''main.tf''],
                     [''srv'', ''work'', ''README.md'']])
         [''srv'', ''work''] 0 \<and>
   search_upward
     (file_tree [[''srv'', ''infrastructure'', ''main.tf''],
                 [''srv'', ''work'', ''README.md'']])
     [''srv'', ''work''] 0
     = Inr [''srv'', ''infrastructure'']"
proof -
  let ?both = "file_tree
     [[''home'', ''atomik'', ''src'', ''aptl'', ''outputs.tf''],
      [''home'', ''atomik'', ''src'', ''aptl'', ''infrastructure'', ''main.tf''],
      [''srv'', ''work'', ''README.md'']]"
  let ?infra = "file_tree
     [[''home'', ''atomik'', ''src'', ''aptl'', ''infrastructure'', ''main.tf''],
      [''srv'', ''work'', ''README.md'']]"
  let ?other = "file_tree
     [[''srv'', ''infrastructure'', ''main.tf''], [''srv'', ''work'', ''README.md'']]"
  have b: "?both (knownLocations ! 0) \<and> has_marker ?both (knownLocations ! 0)"
    by code_simp
  have i: "\<not> (?infra (knownLocations ! 0) \<and> has_marker ?infra (knownLocations ! 0)) \<and>
      ?infra (knownLocations ! 1) \<and> has_marker ?infra (knownLocations ! 1)"
    by code_simp
  have o: "\<not> (?other (knownLocations ! 0) \<and> has_marker ?other (knownLocations ! 0)) \<and>
      \<not> (?other (knownLocations ! 1) \<and> has_marker ?other (knownLocations ! 1))"
    by code_simp
  have locations: "knownLocations ! 0 = [''home'', ''atomik'', ''src'', ''aptl'']"
    "knownLocations ! 1 = [''home'', ''atomik'', ''src'', ''aptl'', ''infrastructure'']"
    by (simp_all add: knownLocations_def)
  have walk: "search_upward ?other [''srv'', ''work''] 0 = Inr [''srv'', ''infrastructure'']"
    by code_simp
  have "findTerraformRoot ?both [''srv'', ''work''] = Inr (knownLocations ! 0)"
    using known_location_fast_path [of ?both "[''srv'', ''work'']"] b by blast
  moreover have "findTerraformRoot ?infra [''srv'', ''work''] = Inr (knownLocations ! 1)"
    using known_location_fast_path [of ?infra "[''srv'', ''work'']"] i by blast
  moreover have "findTerraformRoot ?other [''srv'', ''work'']
      = search_upward ?other [''srv'', ''work''] 0"
    using known_location_fast_path [of ?other "[''srv'', ''work'']"] o by blast
  ultimately show ?thesis
    using walk by (simp only: locations simp_thms)
qed

section \<open>Properties of validation\<close>

subsection \<open>Which inputs are accepted\<close>

lemma valid_OK: "valid (OK a)"
  by (simp add: valid_def OK_def)

lemma valid_INVALID: "\<not> valid (INVALID i)"
  by (simp add: valid_def INVALID_def)

lemma valid_and_field: "valid (and_field r x) \<longleftrightarrow> valid r \<and> valid x"
  by (cases "snd r"; cases "snd x") (simp_all add: valid_def and_field_def)

lemma valid_map_parsed: "valid (map_parsed f r) \<longleftrightarrow> valid r"
  by (cases "snd r") (simp_all add: valid_def map_parsed_def)

lemma valid_field: "valid (field inner p get k) \<longleftrightarrow> valid (inner (p @ [Key k]) (get k))"
  by (simp add: field_def)

lemma valid_z_string: "valid (z_string p v) \<longleftrightarrow> is_str v"
  by (cases v rule: is_str.cases) (simp_all add: z_string_def valid_OK valid_INVALID)

lemma valid_z_number: "valid (z_number p v) \<longleftrightarrow> is_num v"
  by (cases v rule: is_num.cases) (simp_all add: z_number_def valid_OK valid_INVALID)

lemma valid_z_boolean: "valid (z_boolean p v) \<longleftrightarrow> is_bool v"
  by (cases v rule: is_bool.cases) (simp_all add: z_boolean_def valid_OK valid_INVALID)

lemma valid_z_string_ip: "valid (z_string_ip ip p v) \<longleftrightarrow> is_ip_str ip v"
  by (cases v rule: is_str.cases)
     (simp_all add: z_string_ip_def valid_OK valid_INVALID, simp add: valid_def)

lemma valid_z_literal_false: "valid (z_literal_false p v) \<longleftrightarrow> v = Some (JBool False)"
  by (cases v rule: is_bool.cases)
     (auto simp add: z_literal_false_def valid_OK valid_INVALID)

lemma valid_z_optional: "valid (z_optional inner p v) \<longleftrightarrow> v = None \<or> valid (inner p v)"
  by (cases v) (simp_all add: z_optional_def valid_OK valid_map_parsed)

lemma valid_z_boolean_optional_default:
  "valid (z_boolean_optional_default d p v) \<longleftrightarrow> v = None \<or> is_bool v"
  by (cases v) (simp_all add: z_boolean_optional_default_def valid_OK valid_z_boolean)

lemma valid_merge_all: "valid (merge_all rs) \<longleftrightarrow> list_all valid rs"
  by (induction rs) (simp_all add: valid_OK valid_and_field valid_map_parsed)

lemma valid_z_array_string: "valid (z_array_string p v) \<longleftrightarrow> is_str_array v"
proof (cases v rule: is_str_array.cases)
  case (1 items)
  have "list_all valid (map (\<lambda>(i, item). z_string (p @ [Index i]) (Some item)) (enumerate n items))
      \<longleftrightarrow> list_all (\<lambda>item. is_str (Some item)) items" for n
    by (induction items arbitrary: n) (simp_all add: valid_z_string)
  with 1 show ?thesis
    by (simp add: z_array_string_def valid_merge_all)
qed (simp_all add: z_array_string_def valid_INVALID)

lemma valid_z_record_number: "valid (z_record_number p v) \<longleftrightarrow> is_num_record v"
proof (cases v rule: is_num_record.cases)
  case (1 members)
  have "list_all valid
          (map (\<lambda>(k, x). map_parsed (Pair k) (z_number (p @ [Key k]) (Some x))) members)
      \<longleftrightarrow> list_all (\<lambda>(k, x). is_num (Some x)) members"
    by (induction members) (auto simp add: valid_map_parsed valid_z_number)
  with 1 show ?thesis
    by (simp add: z_record_number_def valid_map_parsed valid_merge_all)
qed (simp_all add: z_record_number_def valid_INVALID)

lemma valid_z_object:
  "valid (z_object p v shape)
     \<longleftrightarrow> (case v of Some (JObj members) \<Rightarrow> valid (shape (map_of members)) | _ \<Rightarrow> False)"
  by (simp add: z_object_def valid_INVALID split: option.splits json.splits)

lemma valid_z_union: "valid (z_union a b p v) \<longleftrightarrow> valid (a p v) \<or> valid (b p v)"
  by (cases "snd (a p v)"; cases "snd (b p v)")
     (simp_all add: z_union_def valid_def OK_def INVALID_def Let_def)


lemmas valid_simps =
  valid_OK valid_INVALID valid_and_field valid_map_parsed valid_field valid_z_string
  valid_z_number valid_z_boolean valid_z_string_ip valid_z_literal_false valid_z_optional
  valid_z_boolean_optional_default valid_z_array_string valid_z_record_number
  valid_z_object valid_z_union

lemma valid_InstanceSchema: "valid (InstanceSchema ip p v) \<longleftrightarrow> well_formed_instance ip v"
  by (simp add: InstanceSchema_def well_formed_instance_def valid_simps
      split: option.splits json.splits)

lemma valid_DisabledInstanceSchema: "valid (DisabledInstanceSchema p v) \<longleftrightarrow> marked_disabled v"
  by (simp add: DisabledInstanceSchema_def marked_disabled_def valid_simps
      split: option.splits json.splits)

lemma valid_SlotSchema: "valid (SlotSchema ip p v) \<longleftrightarrow> conforms_slot ip v"
  by (simp add: SlotSchema_def conforms_slot_def valid_map_parsed valid_z_union
      valid_InstanceSchema valid_DisabledInstanceSchema)

lemma valid_LabSchema: "valid (LabSchema p v) \<longleftrightarrow> conforms_lab v"
  by (simp add: LabSchema_def conforms_lab_def valid_simps split: option.splits json.splits)

lemma valid_InstancesSchema: "valid (InstancesSchema ip p v) \<longleftrightarrow> conforms_instances ip v"
  by (simp add: InstancesSchema_def conforms_instances_def valid_OK valid_and_field
      valid_field valid_z_object valid_SlotSchema split: option.splits json.splits)

lemma valid_NetworkSchema: "valid (NetworkSchema p v) \<longleftrightarrow> conforms_network v"
  by (simp add: NetworkSchema_def conforms_network_def valid_simps
      split: option.splits json.splits)

lemma valid_MCPConfigSchema: "valid (MCPConfigSchema p v) \<longleftrightarrow> conforms_mcp v"
  by (simp add: MCPConfigSchema_def conforms_mcp_def valid_simps
      split: option.splits json.splits)

lemma valid_LabConfigSchema: "valid (LabConfigSchema ip p (Some raw)) \<longleftrightarrow> conforms ip raw"
  by (simp add: LabConfigSchema_def conforms_def valid_OK valid_and_field valid_field
      valid_z_object valid_z_string valid_LabSchema valid_InstancesSchema
      valid_NetworkSchema valid_MCPConfigSchema split: json.splits)

lemma parse_accepts_iff: "(\<exists>a. parse s raw = Inr a) \<longleftrightarrow> valid (s [] (Some raw))"
  by (cases "s [] (Some raw)"; cases "snd (s [] (Some raw))")
     (auto simp add: parse_def valid_def)

lemma parse_rejects_iff: "(\<exists>issues. parse s raw = Inl issues) \<longleftrightarrow> \<not> valid (s [] (Some raw))"
  by (cases "s [] (Some raw)"; cases "snd (s [] (Some raw))")
     (auto simp add: parse_def valid_def)

lemma accepted_iff_conforms:
  "(\<exists>config. parse (LabConfigSchema ip) raw = Inr config) \<longleftrightarrow> conforms ip raw"
  by (simp add: parse_accepts_iff valid_LabConfigSchema)


subsection \<open>The value of an accepted input\<close>

lemma OK_Valid: "snd (OK a) = Valid b \<longleftrightarrow> b = a"
  by (auto simp add: OK_def)

lemma INVALID_Valid: "snd (INVALID i) \<noteq> Valid b"
  by (simp add: INVALID_def)

lemma and_field_Valid:
  "snd (and_field r x) = Valid b \<longleftrightarrow> (\<exists>f a. snd r = Valid f \<and> snd x = Valid a \<and> b = f a)"
  by (cases "snd r"; cases "snd x") (auto simp add: and_field_def)

lemma map_parsed_Valid:
  "snd (map_parsed f r) = Valid b \<longleftrightarrow> (\<exists>a. snd r = Valid a \<and> b = f a)"
  by (cases "snd r") (auto simp add: map_parsed_def)

lemma z_string_Valid: "snd (z_string p v) = Valid s \<longleftrightarrow> v = Some (JStr s)"
  by (cases v rule: is_str.cases) (auto simp add: z_string_def OK_def INVALID_def)

lemma z_string_ip_Valid: "snd (z_string_ip ip p v) = Valid s \<longleftrightarrow> v = Some (JStr s) \<and> ip s"
  by (cases v rule: is_str.cases) (auto simp add: z_string_ip_def OK_def INVALID_def)

lemma z_boolean_Valid: "snd (z_boolean p v) = Valid b \<longleftrightarrow> v = Some (JBool b)"
  by (cases v rule: is_bool.cases) (auto simp add: z_boolean_def OK_def INVALID_def)

lemma z_boolean_optional_default_Valid:
  "snd (z_boolean_optional_default d p v) = Valid b \<longleftrightarrow> (v = None \<and> b = d) \<or> v = Some (JBool b)"
  by (cases v) (auto simp add: z_boolean_optional_default_def OK_def z_boolean_Valid)

lemma z_literal_false_Valid: "snd (z_literal_false p v) = Valid u \<longleftrightarrow> v = Some (JBool False)"
  by (cases v rule: is_bool.cases) (auto simp add: z_literal_false_def OK_def INVALID_def)

lemma z_object_Valid:
  "snd (z_object p v shape) = Valid b
     \<longleftrightarrow> (\<exists>m. v = Some (JObj m) \<and> snd (shape (map_of m)) = Valid b)"
  by (auto simp add: z_object_def INVALID_def split: option.splits json.splits)

lemma z_union_Valid:
  "snd (z_union a b p v) = Valid r \<longleftrightarrow>
     (\<exists>x. snd (a p v) = Valid x \<and> r = Inl x) \<or>
     ((\<forall>x. snd (a p v) \<noteq> Valid x) \<and> (\<exists>y. snd (b p v) = Valid y \<and> r = Inr y))"
  by (cases "snd (a p v)"; cases "snd (b p v)")
     (auto simp add: z_union_def OK_def INVALID_def Let_def)

lemma parse_Inr: "parse s raw = Inr a \<longleftrightarrow> snd (s [] (Some raw)) = Valid a"
  by (cases "s [] (Some raw)"; cases "snd (s [] (Some raw))") (auto simp add: parse_def)

lemma valid_iff_Valid: "valid r \<longleftrightarrow> (\<exists>a. snd r = Valid a)"
  by (cases "snd r") (simp_all add: valid_def)

lemma InstanceSchema_Valid:
  assumes "snd (InstanceSchema ip p v) = Valid i"
  shows "\<exists>m. v = Some (JObj m) \<and>
     map_of m ''public_ip'' = Some (JStr (public_ip i)) \<and> ip (public_ip i) \<and>
     map_of m ''private_ip'' = Some (JStr (private_ip i)) \<and> ip (private_ip i) \<and>
     map_of m ''ssh_key'' = Some (JStr (ssh_key i)) \<and>
     map_of m ''ssh_user'' = Some (JStr (ssh_user i)) \<and>
     map_of m ''instance_type'' = Some (JStr (instance_type i)) \<and>
     (map_of m ''enabled'' = None \<and> enabled i = True \<or>
      map_of m ''enabled'' = Some (JBool (enabled i)))"
  using assms
  by (auto simp add: InstanceSchema_def z_object_Valid and_field_Valid OK_Valid field_def
      z_string_Valid z_string_ip_Valid z_boolean_optional_default_Valid)

lemma DisabledInstanceSchema_Valid:
  "snd (DisabledInstanceSchema p v) = Valid u \<longleftrightarrow> marked_disabled v"
  by (auto simp add: DisabledInstanceSchema_def z_object_Valid and_field_Valid OK_Valid
      field_def z_literal_false_Valid marked_disabled_def split: option.splits json.splits)

lemma SlotSchema_Valid:
  "snd (SlotSchema ip p v) = Valid sl \<longleftrightarrow>
     (\<exists>i. snd (InstanceSchema ip p v) = Valid i \<and> sl = Instance i) \<or>
     (\<not> well_formed_instance ip v \<and> marked_disabled v \<and> sl = DisabledInstance)"
proof -
  have wf: "well_formed_instance ip v \<longleftrightarrow> (\<exists>i. snd (InstanceSchema ip p v) = Valid i)"
    using valid_InstanceSchema [of ip p v] by (simp add: valid_iff_Valid)
  show ?thesis
    unfolding wf
    by (auto simp add: SlotSchema_def map_parsed_Valid z_union_Valid
        DisabledInstanceSchema_Valid)
qed






subsection \<open>The issues of a rejected input\<close>

lemma issues_OK: "fst (OK a) = []"
  by (simp add: OK_def)

lemma issues_and_field: "fst (and_field r x) = fst r @ fst x"
  by (simp add: and_field_def)

lemma issues_z_object: "fst (z_object p (Some (JObj m)) shape) = fst (shape (map_of m))"
  by (simp add: z_object_def)

lemma parse_Inl:
  "parse s raw = Inl issues \<longleftrightarrow> \<not> valid (s [] (Some raw)) \<and> issues = fst (s [] (Some raw))"
  by (cases "s [] (Some raw)"; cases "snd (s [] (Some raw))")
     (auto simp add: parse_def valid_def)

lemma well_reported_OK: "well_reported (OK a)"
  by (simp add: well_reported_def valid_OK issues_OK)

lemma well_reported_INVALID: "well_reported (INVALID i)"
  by (simp add: well_reported_def valid_def INVALID_def)

lemma well_reported_and_field:
  "well_reported r \<Longrightarrow> well_reported x \<Longrightarrow> well_reported (and_field r x)"
  by (simp add: well_reported_def valid_and_field issues_and_field)

lemma well_reported_map_parsed: "well_reported r \<Longrightarrow> well_reported (map_parsed f r)"
  by (cases "snd r") (simp_all add: well_reported_def valid_def map_parsed_def)

lemma well_reported_field:
  "(\<And>q v. well_reported (inner q v)) \<Longrightarrow> well_reported (field inner p get k)"
  by (simp add: field_def)

lemma well_reported_z_string: "well_reported (z_string p v)"
  by (cases v rule: is_str.cases)
     (simp_all add: z_string_def well_reported_OK well_reported_INVALID)

lemma well_reported_z_number: "well_reported (z_number p v)"
  by (cases v rule: is_num.cases)
     (simp_all add: z_number_def well_reported_OK well_reported_INVALID)

lemma well_reported_z_boolean: "well_reported (z_boolean p v)"
  by (cases v rule: is_bool.cases)
     (simp_all add: z_boolean_def well_reported_OK well_reported_INVALID)

lemma well_reported_z_string_ip: "well_reported (z_string_ip ip p v)"
  by (cases v rule: is_str.cases)
     (simp_all add: z_string_ip_def well_reported_OK well_reported_INVALID,
      simp add: well_reported_def valid_def)

lemma well_reported_z_literal_false: "well_reported (z_literal_false p v)"
  by (cases v rule: is_bool.cases)
     (auto simp add: z_literal_false_def well_reported_OK well_reported_INVALID
        split: bool.splits)

lemma well_reported_z_optional:
  "well_reported (inner p v) \<Longrightarrow> well_reported (z_optional inner p v)"
  by (cases v) (simp_all add: z_optional_def well_reported_OK well_reported_map_parsed)

lemma well_reported_z_boolean_optional_default:
  "well_reported (z_boolean_optional_default d p v)"
  by (cases v)
     (simp_all add: z_boolean_optional_default_def well_reported_OK well_reported_z_boolean)

lemma well_reported_merge_all: "list_all well_reported rs \<Longrightarrow> well_reported (merge_all rs)"
  by (induction rs)
     (simp_all add: well_reported_OK well_reported_and_field well_reported_map_parsed)

lemma well_reported_z_array_string: "well_reported (z_array_string p v)"
proof (cases v rule: is_str_array.cases)
  case (1 items)
  have "list_all well_reported
          (map (\<lambda>(i, item). z_string (p @ [Index i]) (Some item)) (enumerate n items))" for n
    by (induction items arbitrary: n) (simp_all add: well_reported_z_string)
  with 1 show ?thesis
    by (simp add: z_array_string_def well_reported_merge_all)
qed (simp_all add: z_array_string_def well_reported_INVALID)

lemma well_reported_z_record_number: "well_reported (z_record_number p v)"
proof (cases v rule: is_num_record.cases)
  case (1 members)
  have "list_all well_reported
          (map (\<lambda>(k, x). map_parsed (Pair k) (z_number (p @ [Key k]) (Some x))) members)"
    by (induction members) (auto simp add: well_reported_map_parsed well_reported_z_number)
  with 1 show ?thesis
    by (simp add: z_record_number_def well_reported_map_parsed well_reported_merge_all)
qed (simp_all add: z_record_number_def well_reported_INVALID)

lemma well_reported_z_object:
  "(\<And>get. well_reported (shape get)) \<Longrightarrow> well_reported (z_object p v shape)"
  by (simp add: z_object_def well_reported_INVALID split: option.splits json.splits)

lemma well_reported_z_union:
  assumes "well_reported (a p v)" "well_reported (b p v)"
  shows "well_reported (z_union a b p v)"
  using assms
  by (cases "snd (a p v)"; cases "snd (b p v)")
     (simp_all add: z_union_def well_reported_def valid_def OK_def INVALID_def Let_def)

lemmas well_reported_intros =
  well_reported_OK well_reported_and_field well_reported_field well_reported_z_string
  well_reported_z_number well_reported_z_boolean well_reported_z_string_ip
  well_reported_z_literal_false well_reported_z_optional
  well_reported_z_boolean_optional_default well_reported_z_array_string
  well_reported_z_record_number well_reported_z_object

lemma well_reported_InstanceSchema: "well_reported (InstanceSchema ip p v)"
  unfolding InstanceSchema_def by (intro well_reported_intros)

lemma well_reported_DisabledInstanceSchema: "well_reported (DisabledInstanceSchema p v)"
  unfolding DisabledInstanceSchema_def by (intro well_reported_intros)

lemma well_reported_SlotSchema: "well_reported (SlotSchema ip p v)"
  unfolding SlotSchema_def
  by (intro well_reported_map_parsed well_reported_z_union well_reported_InstanceSchema
      well_reported_DisabledInstanceSchema)

lemma well_reported_LabSchema: "well_reported (LabSchema p v)"
  unfolding LabSchema_def by (intro well_reported_intros)

lemma well_reported_InstancesSchema: "well_reported (InstancesSchema ip p v)"
  unfolding InstancesSchema_def by (intro well_reported_intros well_reported_SlotSchema)

lemma well_reported_NetworkSchema: "well_reported (NetworkSchema p v)"
  unfolding NetworkSchema_def by (intro well_reported_intros)

lemma well_reported_MCPConfigSchema: "well_reported (MCPConfigSchema p v)"
  unfolding MCPConfigSchema_def by (intro well_reported_intros)

lemma well_reported_LabConfigSchema: "well_reported (LabConfigSchema ip p v)"
  unfolding LabConfigSchema_def
  by (intro well_reported_intros well_reported_LabSchema well_reported_InstancesSchema
      well_reported_NetworkSchema well_reported_MCPConfigSchema)

lemma rejected_issues_nonempty:
  "parse (LabConfigSchema ip) raw = Inl issues \<Longrightarrow> issues \<noteq> []"
  using well_reported_LabConfigSchema [of ip "[]" "Some raw"]
  by (auto simp add: parse_Inl well_reported_def)

lemma issues_LabConfigSchema:
  "fst (LabConfigSchema ip p (Some (JObj m))) =
     fst (field z_string p (map_of m) ''version'') @
     fst (field z_string p (map_of m) ''generated'') @
     fst (field LabSchema p (map_of m) ''lab'') @
     fst (field (InstancesSchema ip) p (map_of m) ''instances'') @
     fst (field NetworkSchema p (map_of m) ''network'') @
     fst (field MCPConfigSchema p (map_of m) ''mcp'')"
  by (simp add: LabConfigSchema_def issues_z_object issues_and_field issues_OK)

lemma issues_LabSchema:
  "fst (LabSchema p (Some (JObj m))) =
     fst (field z_string p (map_of m) ''name'') @
     fst (field z_string p (map_of m) ''vpc_cidr'') @
     fst (field (z_optional z_string) p (map_of m) ''project'') @
     fst (field (z_optional z_string) p (map_of m) ''environment'')"
  by (simp add: LabSchema_def issues_z_object issues_and_field issues_OK)

lemma issues_InstancesSchema:
  "fst (InstancesSchema ip p (Some (JObj m))) =
     fst (field (SlotSchema ip) p (map_of m) ''siem'') @
     fst (field (SlotSchema ip) p (map_of m) ''victim'') @
     fst (field (SlotSchema ip) p (map_of m) ''kali'')"
  by (simp add: InstancesSchema_def issues_z_object issues_and_field issues_OK)

lemma issues_NetworkSchema:
  "fst (NetworkSchema p (Some (JObj m))) =
     fst (field z_string p (map_of m) ''vpc_cidr'') @
     fst (field z_string p (map_of m) ''subnet_cidr'') @
     fst (field z_string p (map_of m) ''allowed_ip'')"
  by (simp add: NetworkSchema_def issues_z_object issues_and_field issues_OK)

lemma issues_MCPConfigSchema:
  "fst (MCPConfigSchema p (Some (JObj m))) =
     fst (field z_string p (map_of m) ''server_name'') @
     fst (field z_array_string p (map_of m) ''allowed_targets'') @
     fst (field z_number p (map_of m) ''max_session_time'') @
     fst (field z_boolean p (map_of m) ''audit_enabled'') @
     fst (field z_string p (map_of m) ''log_level'')"
  by (simp add: MCPConfigSchema_def issues_z_object issues_and_field issues_OK)






subsection \<open>Addresses of validated instances\<close>




subsection \<open>The two variants of a slot\<close>

lemma well_formed_instance_parses:
  assumes "well_formed_instance ip (Some (JObj m))" and "map_of m ''enabled'' = None"
  shows "\<exists>i. parse (SlotSchema ip) (JObj m) = Inr (Instance i) \<and> enabled i = True \<and>
     map_of m ''public_ip'' = Some (JStr (public_ip i)) \<and>
     map_of m ''private_ip'' = Some (JStr (private_ip i)) \<and>
     map_of m ''ssh_key'' = Some (JStr (ssh_key i)) \<and>
     map_of m ''ssh_user'' = Some (JStr (ssh_user i)) \<and>
     map_of m ''instance_type'' = Some (JStr (instance_type i))"
proof -
  obtain i where i: "snd (InstanceSchema ip [] (Some (JObj m))) = Valid i"
    using assms(1) valid_InstanceSchema [of ip "[]" "Some (JObj m)"]
    by (auto simp add: valid_iff_Valid)
  then have "parse (SlotSchema ip) (JObj m) = Inr (Instance i)"
    by (simp add: parse_Inr SlotSchema_Valid)
  then show ?thesis
    using InstanceSchema_Valid [OF i] assms(2) by auto
qed

lemma explicit_false_parses_as_instance:
  assumes "well_formed_instance ip (Some (JObj m))"
    and "map_of m ''enabled'' = Some (JBool False)"
  shows "\<exists>i. parse (SlotSchema ip) (JObj m) = Inr (Instance i) \<and> enabled i = False"
proof -
  obtain i where i: "snd (InstanceSchema ip [] (Some (JObj m))) = Valid i"
    using assms(1) valid_InstanceSchema [of ip "[]" "Some (JObj m)"]
    by (auto simp add: valid_iff_Valid)
  then have "parse (SlotSchema ip) (JObj m) = Inr (Instance i)"
    by (simp add: parse_Inr SlotSchema_Valid)
  then show ?thesis
    using InstanceSchema_Valid [OF i] assms(2) by auto
qed

lemma only_disabled_parses:
  "parse (SlotSchema ip) (JObj [(''enabled'', JBool False)]) = Inr DisabledInstance"
  by (simp add: parse_Inr SlotSchema_Valid marked_disabled_def well_formed_instance_def)

lemma slot_exactly_one_variant:
  assumes "parse (SlotSchema ip) raw = Inr sl"
  shows "(\<exists>i. sl = Instance i \<and> parse (InstanceSchema ip) raw = Inr i) \<noteq>
     (sl = DisabledInstance \<and> parse DisabledInstanceSchema raw = Inr () \<and>
      (\<forall>i. parse (InstanceSchema ip) raw \<noteq> Inr i))"
proof -
  have wf: "well_formed_instance ip (Some raw) \<longleftrightarrow> (\<exists>i. parse (InstanceSchema ip) raw = Inr i)"
    using valid_InstanceSchema [of ip "[]" "Some raw"]
    by (simp add: valid_iff_Valid parse_Inr)
  show ?thesis
    using assms unfolding parse_Inr SlotSchema_Valid DisabledInstanceSchema_Valid
    using wf [unfolded parse_Inr] by auto
qed

text \<open>
  C6. A well-formed instance object without \<open>enabled\<close> validates to the instance
  variant, with its fields as given and \<open>enabled = true\<close>. An object with only
  \<open>enabled: false\<close> validates to the disabled variant. An accepted slot is one of the
  two and never both: it is the instance that \<open>InstanceSchema\<close> returns, or else
  \<open>InstanceSchema\<close> refuses the input, \<open>DisabledInstanceSchema\<close> accepts it, and the
  slot is the disabled variant.
\<close>

theorem slot_variants:
  "(well_formed_instance ip (Some (JObj m)) \<and> map_of m ''enabled'' = None
      \<longrightarrow> (\<exists>i. parse (SlotSchema ip) (JObj m) = Inr (Instance i) \<and> enabled i = True \<and>
             map_of m ''public_ip'' = Some (JStr (public_ip i)) \<and>
             map_of m ''private_ip'' = Some (JStr (private_ip i)) \<and>
             map_of m ''ssh_key'' = Some (JStr (ssh_key i)) \<and>
             map_of m ''ssh_user'' = Some (JStr (ssh_user i)) \<and>
             map_of m ''instance_type'' = Some (JStr (instance_type i)))) \<and>
   parse (SlotSchema ip) (JObj [(''enabled'', JBool False)]) = Inr DisabledInstance \<and>
   (parse (SlotSchema ip) raw = Inr sl
      \<longrightarrow> ((\<exists>i. sl = Instance i \<and> parse (InstanceSchema ip) raw = Inr i) \<noteq>
           (sl = DisabledInstance \<and> parse DisabledInstanceSchema raw = Inr () \<and>
            (\<forall>i. parse (InstanceSchema ip) raw \<noteq> Inr i))))"
  using well_formed_instance_parses [of ip m] only_disabled_parses [of ip]
    slot_exactly_one_variant [of ip raw sl]
  by blast

theorem slot_variants_witness:
  "well_formed_instance is_dotted_quad
     (Some (JObj (raw_host ''3.3.3.3'' ''10.0.1.30'' ''kali.pem'' ''kali-admin''))) \<and>
   parse (SlotSchema is_dotted_quad)
     (JObj (raw_host ''3.3.3.3'' ''10.0.1.30'' ''kali.pem'' ''kali-admin''))
     = Inr (Instance (host ''3.3.3.3'' ''10.0.1.30'' ''kali.pem'' ''kali-admin'' True)) \<and>
   parse (InstanceSchema is_dotted_quad)
     (JObj (raw_host ''3.3.3.3'' ''10.0.1.30'' ''kali.pem'' ''kali-admin''))
     = Inr (host ''3.3.3.3'' ''10.0.1.30'' ''kali.pem'' ''kali-admin'' True) \<and>
   parse (SlotSchema is_dotted_quad) (JObj [(''enabled'', JBool False)])
     = Inr DisabledInstance"
proof -
  let ?raw = "raw_host ''3.3.3.3'' ''10.0.1.30'' ''kali.pem'' ''kali-admin''"
  let ?kali = "host ''3.3.3.3'' ''10.0.1.30'' ''kali.pem'' ''kali-admin'' True"
  have wf: "well_formed_instance is_dotted_quad (Some (JObj ?raw))"
    by code_simp
  have absent: "map_of ?raw ''enabled'' = None"
    by (simp add: raw_host_def)
  have slot: "parse (SlotSchema is_dotted_quad) (JObj ?raw) = Inr (Instance ?kali)"
    by code_simp
  have "(\<exists>i. Instance ?kali = Instance i \<and> parse (InstanceSchema is_dotted_quad) (JObj ?raw) = Inr i)
     \<noteq> (Instance ?kali = DisabledInstance \<and>
        parse DisabledInstanceSchema (JObj ?raw) = Inr () \<and>
        (\<forall>i. parse (InstanceSchema is_dotted_quad) (JObj ?raw) \<noteq> Inr i))"
    using slot_variants [where ip = is_dotted_quad and raw = "JObj ?raw"
        and sl = "Instance ?kali"] slot
    by blast
  then have inner: "parse (InstanceSchema is_dotted_quad) (JObj ?raw) = Inr ?kali"
    by simp
  have "parse (SlotSchema is_dotted_quad) (JObj [(''enabled'', JBool False)])
      = Inr DisabledInstance"
    using slot_variants [where ip = is_dotted_quad] by blast
  with wf slot inner show ?thesis
    by simp
qed

subsection \<open>Strictness and the error of a rejected payload\<close>

lemma rejected_iff_not_conforms:
  "isl (parse (LabConfigSchema ip) raw) \<longleftrightarrow> \<not> conforms ip raw"
  using accepted_iff_conforms [of ip raw]
  by (cases "parse (LabConfigSchema ip) raw") auto

lemma rejected_issues:
  assumes "parse (LabConfigSchema ip) (JObj m) = Inl issues"
  shows "issues \<noteq> [] \<and>
     issues =
       fst (field z_string [] (map_of m) ''version'') @
       fst (field z_string [] (map_of m) ''generated'') @
       fst (field LabSchema [] (map_of m) ''lab'') @
       fst (field (InstancesSchema ip) [] (map_of m) ''instances'') @
       fst (field NetworkSchema [] (map_of m) ''network'') @
       fst (field MCPConfigSchema [] (map_of m) ''mcp'')"
  using assms rejected_issues_nonempty [OF assms]
  by (simp add: parse_Inl issues_LabConfigSchema)

lemma DisabledInstanceSchema_not_Dirty: "snd (DisabledInstanceSchema p v) \<noteq> Dirty u"
  by (auto simp add: DisabledInstanceSchema_def z_object_def and_field_def OK_def INVALID_def
      field_def z_literal_false_def split: option.splits json.splits bool.splits)

lemma issues_SlotSchema:
  assumes "\<not> valid (SlotSchema ip p v)"
  shows "fst (SlotSchema ip p v) =
     (case snd (InstanceSchema ip p v) of
        Dirty x \<Rightarrow> fst (InstanceSchema ip p v)
      | _ \<Rightarrow> [invalid_union p [fst (InstanceSchema ip p v),
                                  fst (DisabledInstanceSchema p v)]])"
proof -
  have a: "\<not> valid (InstanceSchema ip p v)" and b: "\<not> valid (DisabledInstanceSchema p v)"
    using assms by (simp_all add: SlotSchema_def valid_map_parsed valid_z_union)
  have na: "fst (InstanceSchema ip p v) \<noteq> []"
    using a well_reported_InstanceSchema [of ip p v] by (simp add: well_reported_def)
  have nb: "fst (DisabledInstanceSchema p v) \<noteq> []"
    using b well_reported_DisabledInstanceSchema [of p v] by (simp add: well_reported_def)
  have sb: "snd (DisabledInstanceSchema p v) = Aborted"
    using b DisabledInstanceSchema_not_Dirty [of p v]
    by (cases "snd (DisabledInstanceSchema p v)") (simp_all add: valid_def)
  show ?thesis
    using a na nb sb
    by (cases "snd (InstanceSchema ip p v)")
       (simp_all add: SlotSchema_def z_union_def map_parsed_def valid_def INVALID_def Let_def)
qed

subsection \<open>Only the named fields are read\<close>

lemma named_fields_InstanceSchema:
  assumes "\<forall>key\<in>{''public_ip'', ''private_ip'', ''ssh_key'', ''ssh_user'', ''instance_type'',
      ''enabled'', ''ports''}. map_of m key = map_of m' key"
  shows "InstanceSchema ip p (Some (JObj m)) = InstanceSchema ip p (Some (JObj m'))"
  using assms by (simp add: InstanceSchema_def z_object_def field_def)

lemma named_fields_DisabledInstanceSchema:
  assumes "map_of m ''enabled'' = map_of m' ''enabled''"
  shows "DisabledInstanceSchema p (Some (JObj m)) = DisabledInstanceSchema p (Some (JObj m'))"
  using assms by (simp add: DisabledInstanceSchema_def z_object_def field_def)

lemma named_fields_SlotSchema:
  assumes "\<forall>key\<in>{''public_ip'', ''private_ip'', ''ssh_key'', ''ssh_user'', ''instance_type'',
      ''enabled'', ''ports''}. map_of m key = map_of m' key"
  shows "SlotSchema ip p (Some (JObj m)) = SlotSchema ip p (Some (JObj m'))"
proof -
  have "map_of m ''enabled'' = map_of m' ''enabled''"
    using assms by simp
  then have "DisabledInstanceSchema p (Some (JObj m)) = DisabledInstanceSchema p (Some (JObj m'))"
    by (rule named_fields_DisabledInstanceSchema)
  then show ?thesis
    unfolding SlotSchema_def z_union_def named_fields_InstanceSchema [OF assms]
    by simp
qed

lemma named_fields_LabSchema:
  assumes "\<forall>key\<in>{''name'', ''vpc_cidr'', ''project'', ''environment''}.
      map_of m key = map_of m' key"
  shows "LabSchema p (Some (JObj m)) = LabSchema p (Some (JObj m'))"
  using assms by (simp add: LabSchema_def z_object_def field_def)

lemma named_fields_InstancesSchema:
  assumes "\<forall>key\<in>{''siem'', ''victim'', ''kali''}. map_of m key = map_of m' key"
  shows "InstancesSchema ip p (Some (JObj m)) = InstancesSchema ip p (Some (JObj m'))"
  using assms by (simp add: InstancesSchema_def z_object_def field_def)

lemma named_fields_NetworkSchema:
  assumes "\<forall>key\<in>{''vpc_cidr'', ''subnet_cidr'', ''allowed_ip''}. map_of m key = map_of m' key"
  shows "NetworkSchema p (Some (JObj m)) = NetworkSchema p (Some (JObj m'))"
  using assms by (simp add: NetworkSchema_def z_object_def field_def)

lemma named_fields_MCPConfigSchema:
  assumes "\<forall>key\<in>{''server_name'', ''allowed_targets'', ''max_session_time'',
      ''audit_enabled'', ''log_level''}. map_of m key = map_of m' key"
  shows "MCPConfigSchema p (Some (JObj m)) = MCPConfigSchema p (Some (JObj m'))"
  using assms by (simp add: MCPConfigSchema_def z_object_def field_def)

lemma named_fields_parse:
  assumes "\<forall>key\<in>{''version'', ''generated'', ''lab'', ''instances'', ''network'', ''mcp''}.
      map_of m key = map_of m' key"
  shows "parse (LabConfigSchema ip) (JObj m) = parse (LabConfigSchema ip) (JObj m')"
  using assms by (simp add: parse_def LabConfigSchema_def z_object_def field_def)

subsection \<open>The issues of the inner schemas\<close>

lemma issues_map_parsed: "fst (map_parsed f r) = fst r"
  by (simp add: map_parsed_def)

lemma issues_merge_all: "fst (merge_all rs) = concat (map fst rs)"
  by (induction rs) (simp_all add: issues_OK issues_and_field issues_map_parsed)

lemma issues_z_array_string:
  "fst (z_array_string p (Some (JArr items))) =
     concat (map (\<lambda>(i, item). fst (z_string (p @ [Index i]) (Some item))) (enumerate 0 items))"
  by (simp add: z_array_string_def issues_merge_all comp_def case_prod_unfold)

lemma issues_z_record_number:
  "fst (z_record_number p (Some (JObj members))) =
     concat (map (\<lambda>(k, x). fst (z_number (p @ [Key k]) (Some x))) members)"
  by (simp add: z_record_number_def issues_merge_all issues_map_parsed comp_def
      case_prod_unfold)

lemma issues_InstanceSchema:
  "fst (InstanceSchema ip p (Some (JObj m))) =
     fst (field (z_string_ip ip) p (map_of m) ''public_ip'') @
     fst (field (z_string_ip ip) p (map_of m) ''private_ip'') @
     fst (field z_string p (map_of m) ''ssh_key'') @
     fst (field z_string p (map_of m) ''ssh_user'') @
     fst (field z_string p (map_of m) ''instance_type'') @
     fst (field (z_boolean_optional_default True) p (map_of m) ''enabled'') @
     fst (field (z_optional z_record_number) p (map_of m) ''ports'')"
  by (simp add: InstanceSchema_def issues_z_object issues_and_field issues_OK)

lemma issues_DisabledInstanceSchema:
  "fst (DisabledInstanceSchema p (Some (JObj m))) =
     fst (field z_literal_false p (map_of m) ''enabled'')"
  by (simp add: DisabledInstanceSchema_def issues_z_object issues_and_field issues_OK)

lemma issues_z_optional:
  "fst (z_optional inner p v) = (case v of None \<Rightarrow> [] | Some x \<Rightarrow> fst (inner p v))"
  by (simp add: z_optional_def issues_OK issues_map_parsed split: option.splits)

lemma typed_OK: "typed (OK a)"
  by (simp add: typed_def OK_def)

lemma typed_INVALID: "\<not> typed (INVALID i)"
  by (simp add: typed_def INVALID_def)

lemma typed_and_field: "typed (and_field r x) \<longleftrightarrow> typed r \<and> typed x"
  by (cases "snd r"; cases "snd x") (simp_all add: typed_def and_field_def)

lemma typed_map_parsed: "typed (map_parsed f r) \<longleftrightarrow> typed r"
  by (cases "snd r") (simp_all add: typed_def map_parsed_def)

lemma typed_z_string: "typed (z_string p v) \<longleftrightarrow> is_str v"
  by (cases v rule: is_str.cases) (simp_all add: z_string_def typed_OK typed_INVALID)

lemma typed_z_string_ip: "typed (z_string_ip ip p v) \<longleftrightarrow> is_str v"
  by (cases v rule: is_str.cases)
     (simp_all add: z_string_ip_def typed_OK typed_INVALID, simp add: typed_def)

lemma typed_z_boolean_optional_default:
  "typed (z_boolean_optional_default d p v) \<longleftrightarrow> v = None \<or> is_bool v"
  by (cases v rule: is_bool.cases)
     (simp_all add: z_boolean_optional_default_def z_boolean_def typed_OK typed_INVALID)

lemma typed_iff_valid_merge_all:
  "list_all (\<lambda>r. typed r \<longleftrightarrow> valid r) rs \<Longrightarrow> typed (merge_all rs) \<longleftrightarrow> valid (merge_all rs)"
  by (induction rs)
     (auto simp add: typed_OK valid_OK typed_and_field valid_and_field typed_map_parsed
        valid_map_parsed)

lemma typed_z_number: "typed (z_number p v) \<longleftrightarrow> valid (z_number p v)"
  by (cases v rule: is_num.cases)
     (simp_all add: z_number_def typed_OK typed_INVALID valid_OK valid_INVALID)

lemma typed_z_record_number: "typed (z_record_number p v) \<longleftrightarrow> is_num_record v"
proof (cases v rule: is_num_record.cases)
  case (1 members)
  have "list_all (\<lambda>r. typed r \<longleftrightarrow> valid r)
          (map (\<lambda>(k, x). map_parsed (Pair k) (z_number (p @ [Key k]) (Some x))) members)"
    by (induction members)
       (auto simp add: typed_map_parsed valid_map_parsed typed_z_number)
  then have "typed (z_record_number p v) \<longleftrightarrow> valid (z_record_number p v)"
    using 1 by (simp add: z_record_number_def typed_map_parsed valid_map_parsed
        typed_iff_valid_merge_all)
  then show ?thesis
    by (simp add: valid_z_record_number)
qed (simp_all add: z_record_number_def typed_INVALID)

lemma typed_z_optional_record:
  "typed (z_optional z_record_number p v) \<longleftrightarrow> v = None \<or> is_num_record v"
  by (cases v) (simp_all add: z_optional_def typed_OK typed_map_parsed typed_z_record_number)

lemma is_ip_str_any: "is_ip_str (\<lambda>a. True) v \<longleftrightarrow> is_str v"
  by (cases v rule: is_str.cases) simp_all

lemma typed_InstanceSchema:
  "typed (InstanceSchema ip p v) \<longleftrightarrow> well_formed_instance (\<lambda>a. True) v"
  by (simp add: InstanceSchema_def well_formed_instance_def z_object_def typed_INVALID
      typed_OK typed_and_field field_def typed_z_string typed_z_string_ip
      typed_z_boolean_optional_default typed_z_optional_record is_ip_str_any
      split: option.splits json.splits)

lemma InstanceSchema_Dirty_iff:
  "(\<exists>y. snd (InstanceSchema ip p v) = Dirty y) \<longleftrightarrow>
     well_formed_instance (\<lambda>a. True) v \<and> \<not> well_formed_instance ip v"
  using typed_InstanceSchema [of ip p v] valid_InstanceSchema [of ip p v]
  by (cases "snd (InstanceSchema ip p v)") (simp_all add: typed_def valid_def)

lemma issues_refused_slot:
  assumes "\<not> valid (SlotSchema ip p v)"
  shows "fst (SlotSchema ip p v) =
     (if well_formed_instance (\<lambda>a. True) v then fst (InstanceSchema ip p v)
      else [invalid_union p [fst (InstanceSchema ip p v), fst (DisabledInstanceSchema p v)]])"
proof -
  have "\<not> well_formed_instance ip v"
    using assms by (simp add: valid_SlotSchema conforms_slot_def)
  then have "(\<exists>y. snd (InstanceSchema ip p v) = Dirty y) \<longleftrightarrow> well_formed_instance (\<lambda>a. True) v"
    by (simp add: InstanceSchema_Dirty_iff)
  then show ?thesis
    using issues_SlotSchema [OF assms]
    by (cases "snd (InstanceSchema ip p v)") auto
qed

lemma disabled_slot_accepted:
  assumes "marked_disabled v"
  shows "valid (SlotSchema ip p v)"
    and "\<not> well_formed_instance ip v \<Longrightarrow> snd (SlotSchema ip p v) = Valid DisabledInstance"
  using assms by (simp_all add: valid_SlotSchema conforms_slot_def SlotSchema_Valid)

subsection \<open>The issues of the primitive schemas and of a value of the wrong kind\<close>

lemma issues_z_string: "fst (z_string p v) = (if is_str v then [] else [invalid_type p])"
  by (cases v rule: is_str.cases) (simp_all add: z_string_def OK_def INVALID_def)

lemma issues_z_number: "fst (z_number p v) = (if is_num v then [] else [invalid_type p])"
  by (cases v rule: is_num.cases) (simp_all add: z_number_def OK_def INVALID_def)

lemma issues_z_boolean: "fst (z_boolean p v) = (if is_bool v then [] else [invalid_type p])"
  by (cases v rule: is_bool.cases) (simp_all add: z_boolean_def OK_def INVALID_def)

lemma issues_z_string_ip:
  "fst (z_string_ip ip p v) =
     (if is_ip_str ip v then [] else if is_str v then [invalid_string p] else [invalid_type p])"
  by (cases v rule: is_str.cases) (simp_all add: z_string_ip_def OK_def INVALID_def)

lemma issues_z_literal_false:
  "fst (z_literal_false p v) = (if v = Some (JBool False) then [] else [invalid_literal p])"
  by (cases v rule: is_bool.cases)
     (auto simp add: z_literal_false_def OK_def INVALID_def split: bool.splits)

lemma issues_z_boolean_optional_default:
  "fst (z_boolean_optional_default d p v) =
     (if v = None \<or> is_bool v then [] else [invalid_type p])"
  by (cases v rule: is_bool.cases)
     (simp_all add: z_boolean_optional_default_def z_boolean_def OK_def INVALID_def)

lemma issues_z_object_wrong_kind:
  "\<not> is_object v \<Longrightarrow> fst (z_object p v shape) = [invalid_type p]"
  by (cases v rule: is_object.cases) (simp_all add: z_object_def INVALID_def)

lemma issues_wrong_kind:
  assumes "\<not> is_object v"
  shows "fst (LabConfigSchema ip p v) = [invalid_type p]"
    and "fst (LabSchema p v) = [invalid_type p]"
    and "fst (InstancesSchema ip p v) = [invalid_type p]"
    and "fst (NetworkSchema p v) = [invalid_type p]"
    and "fst (MCPConfigSchema p v) = [invalid_type p]"
    and "fst (InstanceSchema ip p v) = [invalid_type p]"
    and "fst (DisabledInstanceSchema p v) = [invalid_type p]"
    and "fst (z_record_number p v) = [invalid_type p]"
  using assms
  by (simp_all add: LabConfigSchema_def LabSchema_def InstancesSchema_def NetworkSchema_def
      MCPConfigSchema_def InstanceSchema_def DisabledInstanceSchema_def
      issues_z_object_wrong_kind,
      cases v rule: is_object.cases, simp_all add: z_record_number_def INVALID_def)

lemma issues_z_array_wrong_kind:
  "\<not> is_array v \<Longrightarrow> fst (z_array_string p v) = [invalid_type p]"
  by (cases v rule: is_array.cases) (simp_all add: z_array_string_def INVALID_def)

text \<open>
  C7, as the specification states it, fails twice. A payload with a field \<open>debug\<close> at
  the top level and a field \<open>hostname\<close> in the \<open>victim\<close> slot, neither known to the
  schemas, is accepted, and the result does not hold them. And a payload whose \<open>siem\<close>
  slot has a number as \<open>public_ip\<close>, a boolean as \<open>ssh_key\<close>, no other instance field
  and \<open>enabled: false\<close> is accepted, with \<open>siem\<close> disabled.
\<close>

theorem unknown_fields_accepted:
  "parse (LabConfigSchema isValidIP)
     (JObj ((''debug'', JBool True) #
        raw_lab_with
          (JObj [(''enabled'', JBool False)])
          (JObj (raw_host ''2.2.2.2'' ''10.0.1.20'' ''victim.pem'' ''victim-user''
                 @ [(''hostname'', JStr ''victim-1'')]))
          (JObj (raw_host ''3.3.3.3'' ''10.0.1.30'' ''kali.pem'' ''kali-admin''))))
     = Inr (lab_with DisabledInstance
              (Instance (host ''2.2.2.2'' ''10.0.1.20'' ''victim.pem'' ''victim-user'' True))
              (Instance (host ''3.3.3.3'' ''10.0.1.30'' ''kali.pem'' ''kali-admin'' True))) \<and>
   parse (LabConfigSchema isValidIP)
     (JObj (raw_lab_with
        (JObj [(''public_ip'', JNum 5), (''ssh_key'', JBool True), (''enabled'', JBool False)])
        (JObj (raw_host ''2.2.2.2'' ''10.0.1.20'' ''victim.pem'' ''victim-user''))
        (JObj (raw_host ''3.3.3.3'' ''10.0.1.30'' ''kali.pem'' ''kali-admin''))))
     = Inr (lab_with DisabledInstance
              (Instance (host ''2.2.2.2'' ''10.0.1.20'' ''victim.pem'' ''victim-user'' True))
              (Instance (host ''3.3.3.3'' ''10.0.1.30'' ''kali.pem'' ''kali-admin'' True)))"
  by code_simp

text \<open>
  C7, amended. Validation is all-or-nothing: a payload is accepted iff it conforms, and
  rejected otherwise. It conforms when it is an object in which \<open>version\<close>,
  \<open>generated\<close>, \<open>lab\<close>, \<open>network\<close> and \<open>mcp\<close> have every required field with its
  primitive type (and every optional field that is present), and each of the slots
  \<open>siem\<close>, \<open>victim\<close> and \<open>kali\<close> either is a well-formed instance object or is an
  object with \<open>enabled: false\<close>. A slot with
  \<open>enabled: false\<close> is accepted whatever its other fields are, missing or of a wrong
  type, and if it is no well-formed instance it validates to the disabled variant. A
  field that a schema does not name is no violation at any level: two objects that
  agree on the fields that the schema names validate alike.

  The error of a rejected payload is not empty and enumerates the issues of all
  fields, not only the first: the issues of the payload, of \<open>lab\<close>, \<open>instances\<close>,
  \<open>network\<close>, \<open>mcp\<close>, of the instance alternative and of the disabled alternative of a
  slot, of an array and of a record are the issues of all their fields, elements or
  members, in order; an optional field that is absent gives none. A string, number
  or boolean field of another type (or missing) gives one \<open>invalid_type\<close> issue at its
  path, as does a value that should be an object
  or an array and is not; an address that fails the check gives one \<open>invalid_string\<close>
  issue, and an \<open>enabled\<close> other than \<open>false\<close> in the disabled alternative one
  \<open>invalid_literal\<close> issue. A refused slot reports one \<open>invalid_union\<close> issue that holds
  the issues of both alternatives; but when all fields of the instance alternative
  have their types, so that it fails on address checks alone, the slot reports the
  issues of the instance alternative only.
\<close>

theorem validation_accepts_and_reports:
  "((\<exists>config. parse (LabConfigSchema ip) raw = Inr config) \<longleftrightarrow> conforms ip raw) \<and>
   (isl (parse (LabConfigSchema ip) raw) \<longleftrightarrow> \<not> conforms ip raw) \<and>
   ((\<forall>key\<in>{''version'', ''generated'', ''lab'', ''instances'', ''network'', ''mcp''}.
       map_of m key = map_of m' key)
      \<longrightarrow> parse (LabConfigSchema ip) (JObj m) = parse (LabConfigSchema ip) (JObj m')) \<and>
   (parse (LabConfigSchema ip) (JObj m) = Inl issues
      \<longrightarrow> issues \<noteq> [] \<and>
          issues =
            fst (field z_string [] (map_of m) ''version'') @
            fst (field z_string [] (map_of m) ''generated'') @
            fst (field LabSchema [] (map_of m) ''lab'') @
            fst (field (InstancesSchema ip) [] (map_of m) ''instances'') @
            fst (field NetworkSchema [] (map_of m) ''network'') @
            fst (field MCPConfigSchema [] (map_of m) ''mcp'')) \<and>
   fst (LabSchema p (Some (JObj m))) =
     fst (field z_string p (map_of m) ''name'') @
     fst (field z_string p (map_of m) ''vpc_cidr'') @
     fst (field (z_optional z_string) p (map_of m) ''project'') @
     fst (field (z_optional z_string) p (map_of m) ''environment'') \<and>
   fst (InstancesSchema ip p (Some (JObj m))) =
     fst (field (SlotSchema ip) p (map_of m) ''siem'') @
     fst (field (SlotSchema ip) p (map_of m) ''victim'') @
     fst (field (SlotSchema ip) p (map_of m) ''kali'') \<and>
   fst (NetworkSchema p (Some (JObj m))) =
     fst (field z_string p (map_of m) ''vpc_cidr'') @
     fst (field z_string p (map_of m) ''subnet_cidr'') @
     fst (field z_string p (map_of m) ''allowed_ip'') \<and>
   fst (MCPConfigSchema p (Some (JObj m))) =
     fst (field z_string p (map_of m) ''server_name'') @
     fst (field z_array_string p (map_of m) ''allowed_targets'') @
     fst (field z_number p (map_of m) ''max_session_time'') @
     fst (field z_boolean p (map_of m) ''audit_enabled'') @
     fst (field z_string p (map_of m) ''log_level'') \<and>
   fst (InstanceSchema ip p (Some (JObj m))) =
     fst (field (z_string_ip ip) p (map_of m) ''public_ip'') @
     fst (field (z_string_ip ip) p (map_of m) ''private_ip'') @
     fst (field z_string p (map_of m) ''ssh_key'') @
     fst (field z_string p (map_of m) ''ssh_user'') @
     fst (field z_string p (map_of m) ''instance_type'') @
     fst (field (z_boolean_optional_default True) p (map_of m) ''enabled'') @
     fst (field (z_optional z_record_number) p (map_of m) ''ports'') \<and>
   fst (DisabledInstanceSchema p (Some (JObj m))) =
     fst (field z_literal_false p (map_of m) ''enabled'') \<and>
   fst (z_array_string p (Some (JArr items))) =
     concat (map (\<lambda>(i, item). fst (z_string (p @ [Index i]) (Some item)))
               (enumerate 0 items)) \<and>
   fst (z_record_number p (Some (JObj members))) =
     concat (map (\<lambda>(k, x). fst (z_number (p @ [Key k]) (Some x))) members) \<and>
   (\<not> valid (SlotSchema ip p v)
      \<longrightarrow> fst (SlotSchema ip p v) =
            (if well_formed_instance (\<lambda>a. True) v then fst (InstanceSchema ip p v)
             else [invalid_union p [fst (InstanceSchema ip p v),
                                     fst (DisabledInstanceSchema p v)]])) \<and>
   (marked_disabled v \<longrightarrow> valid (SlotSchema ip p v)) \<and>
   (marked_disabled v \<and> \<not> well_formed_instance ip v
      \<longrightarrow> snd (SlotSchema ip p v) = Valid DisabledInstance) \<and>
   ((\<forall>key\<in>{''public_ip'', ''private_ip'', ''ssh_key'', ''ssh_user'', ''instance_type'',
                ''enabled'', ''ports''}. map_of m key = map_of m' key)
      \<longrightarrow> SlotSchema ip p (Some (JObj m)) = SlotSchema ip p (Some (JObj m'))) \<and>
   ((\<forall>key\<in>{''name'', ''vpc_cidr'', ''project'', ''environment''}.
       map_of m key = map_of m' key)
      \<longrightarrow> LabSchema p (Some (JObj m)) = LabSchema p (Some (JObj m'))) \<and>
   ((\<forall>key\<in>{''siem'', ''victim'', ''kali''}. map_of m key = map_of m' key)
      \<longrightarrow> InstancesSchema ip p (Some (JObj m)) = InstancesSchema ip p (Some (JObj m'))) \<and>
   ((\<forall>key\<in>{''vpc_cidr'', ''subnet_cidr'', ''allowed_ip''}. map_of m key = map_of m' key)
      \<longrightarrow> NetworkSchema p (Some (JObj m)) = NetworkSchema p (Some (JObj m'))) \<and>
   ((\<forall>key\<in>{''server_name'', ''allowed_targets'', ''max_session_time'', ''audit_enabled'',
                ''log_level''}. map_of m key = map_of m' key)
      \<longrightarrow> MCPConfigSchema p (Some (JObj m)) = MCPConfigSchema p (Some (JObj m'))) \<and>
   fst (z_string p v) = (if is_str v then [] else [invalid_type p]) \<and>
   fst (z_number p v) = (if is_num v then [] else [invalid_type p]) \<and>
   fst (z_boolean p v) = (if is_bool v then [] else [invalid_type p]) \<and>
   fst (z_string_ip ip p v) =
     (if is_ip_str ip v then [] else if is_str v then [invalid_string p]
      else [invalid_type p]) \<and>
   fst (z_literal_false p v) =
     (if v = Some (JBool False) then [] else [invalid_literal p]) \<and>
   fst (z_boolean_optional_default True p v) =
     (if v = None \<or> is_bool v then [] else [invalid_type p]) \<and>
   fst (z_optional z_string p v) = (case v of None \<Rightarrow> [] | Some y \<Rightarrow> fst (z_string p v)) \<and>
   fst (z_optional z_record_number p v) =
     (case v of None \<Rightarrow> [] | Some y \<Rightarrow> fst (z_record_number p v)) \<and>
   (\<not> is_object v
      \<longrightarrow> fst (LabConfigSchema ip p v) = [invalid_type p] \<and>
          fst (LabSchema p v) = [invalid_type p] \<and>
          fst (InstancesSchema ip p v) = [invalid_type p] \<and>
          fst (NetworkSchema p v) = [invalid_type p] \<and>
          fst (MCPConfigSchema p v) = [invalid_type p] \<and>
          fst (InstanceSchema ip p v) = [invalid_type p] \<and>
          fst (DisabledInstanceSchema p v) = [invalid_type p] \<and>
          fst (z_record_number p v) = [invalid_type p]) \<and>
   (\<not> is_array v \<longrightarrow> fst (z_array_string p v) = [invalid_type p])"
proof (intro conjI impI)
  show "parse (LabConfigSchema ip) (JObj m) = parse (LabConfigSchema ip) (JObj m')"
    if "\<forall>key\<in>{''version'', ''generated'', ''lab'', ''instances'', ''network'', ''mcp''}.
      map_of m key = map_of m' key"
    using that by (rule named_fields_parse)
  show "SlotSchema ip p (Some (JObj m)) = SlotSchema ip p (Some (JObj m'))"
    if "\<forall>key\<in>{''public_ip'', ''private_ip'', ''ssh_key'', ''ssh_user'', ''instance_type'',
      ''enabled'', ''ports''}. map_of m key = map_of m' key"
    using that by (rule named_fields_SlotSchema)
  show "LabSchema p (Some (JObj m)) = LabSchema p (Some (JObj m'))"
    if "\<forall>key\<in>{''name'', ''vpc_cidr'', ''project'', ''environment''}.
      map_of m key = map_of m' key"
    using that by (rule named_fields_LabSchema)
  show "InstancesSchema ip p (Some (JObj m)) = InstancesSchema ip p (Some (JObj m'))"
    if "\<forall>key\<in>{''siem'', ''victim'', ''kali''}. map_of m key = map_of m' key"
    using that by (rule named_fields_InstancesSchema)
  show "NetworkSchema p (Some (JObj m)) = NetworkSchema p (Some (JObj m'))"
    if "\<forall>key\<in>{''vpc_cidr'', ''subnet_cidr'', ''allowed_ip''}. map_of m key = map_of m' key"
    using that by (rule named_fields_NetworkSchema)
  show "MCPConfigSchema p (Some (JObj m)) = MCPConfigSchema p (Some (JObj m'))"
    if "\<forall>key\<in>{''server_name'', ''allowed_targets'', ''max_session_time'',
      ''audit_enabled'', ''log_level''}. map_of m key = map_of m' key"
    using that by (rule named_fields_MCPConfigSchema)
  show "fst (z_string p v) = (if is_str v then [] else [invalid_type p])"
    by (rule issues_z_string)
  show "fst (z_number p v) = (if is_num v then [] else [invalid_type p])"
    by (rule issues_z_number)
  show "fst (z_boolean p v) = (if is_bool v then [] else [invalid_type p])"
    by (rule issues_z_boolean)
  show "fst (z_string_ip ip p v) =
     (if is_ip_str ip v then [] else if is_str v then [invalid_string p]
      else [invalid_type p])"
    by (rule issues_z_string_ip)
  show "fst (z_literal_false p v) =
     (if v = Some (JBool False) then [] else [invalid_literal p])"
    by (rule issues_z_literal_false)
  show "fst (z_boolean_optional_default True p v) =
     (if v = None \<or> is_bool v then [] else [invalid_type p])"
    by (rule issues_z_boolean_optional_default)
  show "fst (z_optional z_string p v) = (case v of None \<Rightarrow> [] | Some y \<Rightarrow> fst (z_string p v))"
    by (rule issues_z_optional)
  show "fst (z_optional z_record_number p v) =
     (case v of None \<Rightarrow> [] | Some y \<Rightarrow> fst (z_record_number p v))"
    by (rule issues_z_optional)
  show "fst (z_array_string p v) = [invalid_type p]" if "\<not> is_array v"
    using that by (rule issues_z_array_wrong_kind)
  show "(\<exists>config. parse (LabConfigSchema ip) raw = Inr config) \<longleftrightarrow> conforms ip raw"
    by (rule accepted_iff_conforms)
  show "isl (parse (LabConfigSchema ip) raw) \<longleftrightarrow> \<not> conforms ip raw"
    by (rule rejected_iff_not_conforms)
  show "fst (z_array_string p (Some (JArr items))) =
     concat (map (\<lambda>(i, item). fst (z_string (p @ [Index i]) (Some item)))
               (enumerate 0 items))"
    by (rule issues_z_array_string)
  show "fst (z_record_number p (Some (JObj members))) =
     concat (map (\<lambda>(k, x). fst (z_number (p @ [Key k]) (Some x))) members)"
    by (rule issues_z_record_number)
  show "fst (SlotSchema ip p v) =
      (if well_formed_instance (\<lambda>a. True) v then fst (InstanceSchema ip p v)
       else [invalid_union p [fst (InstanceSchema ip p v), fst (DisabledInstanceSchema p v)]])"
    if "\<not> valid (SlotSchema ip p v)"
    using that by (rule issues_refused_slot)
  show "valid (SlotSchema ip p v)" if "marked_disabled v"
    using that by (rule disabled_slot_accepted(1))
  show "snd (SlotSchema ip p v) = Valid DisabledInstance"
    if "marked_disabled v \<and> \<not> well_formed_instance ip v"
    using that disabled_slot_accepted(2) by blast
qed (simp_all only: rejected_issues_nonempty rejected_issues
      issues_LabSchema issues_InstancesSchema issues_NetworkSchema issues_MCPConfigSchema
      issues_InstanceSchema issues_DisabledInstanceSchema issues_wrong_kind
      not_False_eq_True)

theorem validation_accepts_and_reports_witness:
  "\<not> conforms isValidIP
     (JObj (raw_lab_with
        (JObj [(''public_ip'', JStr ''1.1.1.1'')])
        (JObj [(''enabled'', JBool False)])
        (JObj (raw_host ''999.3.3.3'' ''10.0.1.30'' ''kali.pem'' ''kali-admin'')))) \<and>
   parse (LabConfigSchema isValidIP)
     (JObj (raw_lab_with
        (JObj [(''public_ip'', JStr ''1.1.1.1'')])
        (JObj [(''enabled'', JBool False)])
        (JObj (raw_host ''999.3.3.3'' ''10.0.1.30'' ''kali.pem'' ''kali-admin''))))
     = Inl [invalid_union [Key ''instances'', Key ''siem'']
              [[invalid_type [Key ''instances'', Key ''siem'', Key ''private_ip''],
                invalid_type [Key ''instances'', Key ''siem'', Key ''ssh_key''],
                invalid_type [Key ''instances'', Key ''siem'', Key ''ssh_user''],
                invalid_type [Key ''instances'', Key ''siem'', Key ''instance_type'']],
               [invalid_literal [Key ''instances'', Key ''siem'', Key ''enabled'']]],
            invalid_string [Key ''instances'', Key ''kali'', Key ''public_ip'']] \<and>
   parse (LabConfigSchema isValidIP)
     (JObj ((''debug'', JBool True) #
        raw_lab_with
          (JObj [(''enabled'', JBool False)])
          (JObj [(''enabled'', JBool False)])
          (JObj (raw_host ''3.3.3.3'' ''10.0.1.30'' ''kali.pem'' ''kali-admin''))))
     = Inr (lab_with DisabledInstance DisabledInstance
              (Instance (host ''3.3.3.3'' ''10.0.1.30'' ''kali.pem'' ''kali-admin'' True))) \<and>
   snd (SlotSchema isValidIP []
     (Some (JObj [(''public_ip'', JNum 5), (''ssh_key'', JBool True),
                  (''enabled'', JBool False)])))
     = Valid DisabledInstance"
proof -
  let ?broken = "raw_lab_with
      (JObj [(''public_ip'', JStr ''1.1.1.1'')])
      (JObj [(''enabled'', JBool False)])
      (JObj (raw_host ''999.3.3.3'' ''10.0.1.30'' ''kali.pem'' ''kali-admin''))"
  let ?good = "raw_lab_with
      (JObj [(''enabled'', JBool False)])
      (JObj [(''enabled'', JBool False)])
      (JObj (raw_host ''3.3.3.3'' ''10.0.1.30'' ''kali.pem'' ''kali-admin''))"
  let ?issues = "[invalid_union [Key ''instances'', Key ''siem'']
              [[invalid_type [Key ''instances'', Key ''siem'', Key ''private_ip''],
                invalid_type [Key ''instances'', Key ''siem'', Key ''ssh_key''],
                invalid_type [Key ''instances'', Key ''siem'', Key ''ssh_user''],
                invalid_type [Key ''instances'', Key ''siem'', Key ''instance_type'']],
               [invalid_literal [Key ''instances'', Key ''siem'', Key ''enabled'']]],
            invalid_string [Key ''instances'', Key ''kali'', Key ''public_ip'']]"
  let ?odd = "Some (JObj [(''public_ip'', JNum 5), (''ssh_key'', JBool True),
      (''enabled'', JBool False)])"
  note facts = validation_accepts_and_reports [where ip = isValidIP]
  have shape: "\<not> conforms isValidIP (JObj ?broken)"
    by code_simp
  then have "isl (parse (LabConfigSchema isValidIP) (JObj ?broken))"
    using facts [where raw = "JObj ?broken", THEN conjunct2, THEN conjunct1]
    by simp
  then obtain issues where rejected:
    "parse (LabConfigSchema isValidIP) (JObj ?broken) = Inl issues"
    by (cases "parse (LabConfigSchema isValidIP) (JObj ?broken)") simp_all
  then have "issues =
      fst (field z_string [] (map_of ?broken) ''version'') @
      fst (field z_string [] (map_of ?broken) ''generated'') @
      fst (field LabSchema [] (map_of ?broken) ''lab'') @
      fst (field (InstancesSchema isValidIP) [] (map_of ?broken) ''instances'') @
      fst (field NetworkSchema [] (map_of ?broken) ''network'') @
      fst (field MCPConfigSchema [] (map_of ?broken) ''mcp'')"
    using facts [where m = ?broken and issues = issues,
       THEN conjunct2, THEN conjunct2, THEN conjunct2, THEN conjunct1]
    by simp
  also have "\<dots> = ?issues"
    by code_simp
  finally have error: "parse (LabConfigSchema isValidIP) (JObj ?broken) = Inl ?issues"
    using rejected by simp
  have marked: "marked_disabled ?odd \<and> \<not> well_formed_instance isValidIP ?odd"
    by code_simp
  have odd: "snd (SlotSchema isValidIP [] ?odd) = Valid DisabledInstance"
    using marked
      facts [where v = ?odd and p = "[]", THEN conjunct2, THEN conjunct2, THEN conjunct2,
        THEN conjunct2, THEN conjunct2, THEN conjunct2, THEN conjunct2, THEN conjunct2,
        THEN conjunct2, THEN conjunct2, THEN conjunct2, THEN conjunct2, THEN conjunct2,
        THEN conjunct2, THEN conjunct1]
    by (simp only: simp_thms)
  have "\<forall>key\<in>{''version'', ''generated'', ''lab'', ''instances'', ''network'', ''mcp''}.
      map_of ((''debug'', JBool True) # ?good) key = map_of ?good key"
    by simp
  then have "parse (LabConfigSchema isValidIP) (JObj ((''debug'', JBool True) # ?good))
      = parse (LabConfigSchema isValidIP) (JObj ?good)"
    using facts [where m = "(''debug'', JBool True) # ?good" and m' = ?good,
       THEN conjunct2, THEN conjunct2, THEN conjunct1]
    by (simp only: simp_thms)
  also have "\<dots> = Inr (lab_with DisabledInstance DisabledInstance
      (Instance (host ''3.3.3.3'' ''10.0.1.30'' ''kali.pem'' ''kali-admin'' True)))"
    by code_simp
  finally show ?thesis
    using shape error odd by simp
qed

end
